theory Spec2Isabelle
  imports Complex_Main
begin

section \<open>Promotion coupon endpoint: data model\<close>

text \<open>
  The endpoint \<^verbatim>\<open>GET /api/promotion/coupon/:coupon\<close> is given in
  \<^verbatim>\<open>docs/promotion-coupon-pseudocode.md\<close>. Instants are seconds on one clock
  (\<^verbatim>\<open>currentDateTime()\<close>), cache time-to-live values are seconds, operation
  budgets and latencies are milliseconds.
\<close>

type_synonym timestamp = int

datatype commission_type = PERCENTAGE | FIXED

datatype activation = ACTIVE | INACTIVE

datatype tracking_status = CLICK | CONVERSION

datatype payment_state = HOLD | RELEASE

text \<open>\<^verbatim>\<open>STRUCTURE Campaign\<close>; the fields carry the SQL alias \<open>c\<close> of the source's query.\<close>

record Campaign =
  c_id :: int
  c_title :: string
  c_url :: string
  c_image_id :: "int option"
  c_description :: string
  c_start_on :: timestamp
  c_end_on :: timestamp
  c_package_id :: int
  c_commission_type :: commission_type
  c_commission :: int
  c_approval :: activation
  c_status :: activation
  c_created_at :: timestamp
  c_updated_at :: timestamp

text \<open>
  \<^verbatim>\<open>STRUCTURE AffiliateLink\<close> with its nested campaign. The controller tests
  \<^verbatim>\<open>affiliateLink.id is NULL\<close>, so the id of a link object may be null.
\<close>

record AffiliateLink =
  al_id :: "int option"
  al_coupon :: string
  al_affiliate_id :: int
  al_campaign_id :: int
  al_campaign :: Campaign
  al_created_at :: timestamp
  al_updated_at :: timestamp

text \<open>A row of table \<^verbatim>\<open>affiliate_links\<close> (primary key never null).\<close>

record link_row =
  row_id :: int
  row_coupon :: string
  row_affiliate_id :: int
  row_campaign_id :: int
  row_created_at :: timestamp
  row_updated_at :: timestamp

text \<open>\<^verbatim>\<open>STRUCTURE ClickTrackingEvent\<close>: payment defaults to HOLD, amount to 0.0.\<close>

record ClickTrackingEvent =
  ev_country :: string
  ev_affiliate_id :: int
  ev_campaign_id :: int
  ev_link_id :: "int option"
  ev_status :: tracking_status
  ev_payment :: payment_state
  ev_amount :: real

definition new_ClickTrackingEvent ::
  "string \<Rightarrow> int \<Rightarrow> int \<Rightarrow> int option \<Rightarrow> tracking_status \<Rightarrow> ClickTrackingEvent" where
  "new_ClickTrackingEvent country affiliate_id campaign_id link_id status =
     \<lparr>ev_country = country, ev_affiliate_id = affiliate_id, ev_campaign_id = campaign_id,
      ev_link_id = link_id, ev_status = status, ev_payment = HOLD, ev_amount = 0\<rparr>"

text \<open>A row of table \<^verbatim>\<open>affiliate_tracking\<close> (auto-incremented \<open>id\<close>).\<close>

record tracking_row =
  tr_id :: int
  tr_country :: string
  tr_affiliate_id :: int
  tr_campaign_id :: int
  tr_link_id :: "int option"
  tr_status :: tracking_status
  tr_payment :: payment_state
  tr_amount :: real
  tr_created_at :: timestamp
  tr_updated_at :: timestamp

text \<open>\<^verbatim>\<open>STRUCTURE TemplateData\<close>.\<close>

record TemplateData =
  td_data :: AffiliateLink
  td_country :: string

text \<open>
  A thrown error object, with the members the source reads: \<^verbatim>\<open>statusCode\<close>,
  \<^verbatim>\<open>status\<close>, \<^verbatim>\<open>message\<close> and the messages of \<^verbatim>\<open>errors\<close>.
\<close>

record js_error =
  err_statusCode :: "int option"
  err_status :: "int option"
  err_message :: "string option"
  err_errors :: "string list"

record request =
  pathParameters :: "string \<rightharpoonup> string"
  headers :: "(string \<times> string) list"

datatype http_response =
    Redirect string
  | Html nat string
  | JSONError int string

fun http_status :: "http_response \<Rightarrow> int" where
  "http_status (Redirect location) = 302"
| "http_status (Html code body) = int code"
| "http_status (JSONError code msg) = code"

subsection \<open>Serialised snapshots\<close>

text \<open>
  What a cache key holds is text. \<^verbatim>\<open>toJSON\<close> of a link is a snapshot of it,
  \<^verbatim>\<open>parseJSON\<close> gives the link back; the text \<^verbatim>\<open>null\<close> parses to NULL and any
  other text makes \<^verbatim>\<open>parseJSON\<close> throw.
\<close>

datatype payload = Snapshot AffiliateLink | NullText | Garbled string

definition toJSON :: "AffiliateLink \<Rightarrow> payload" where
  "toJSON link = Snapshot link"

fun parseJSON :: "payload \<Rightarrow> js_error + AffiliateLink option" where
  "parseJSON (Snapshot link) = Inr (Some link)"
| "parseJSON NullText = Inr None"
| "parseJSON (Garbled s) =
     Inl \<lparr>err_statusCode = None, err_status = None,
          err_message = Some (''Unexpected token in JSON: '' @ s), err_errors = []\<rparr>"

subsection \<open>Printing numbers\<close>

fun show_nat :: "nat \<Rightarrow> string" where
  "show_nat n =
     (if n < 10 then [char_of (48 + n)]
      else show_nat (n div 10) @ [char_of (48 + n mod 10)])"

declare show_nat.simps [simp del]

definition show_int :: "int \<Rightarrow> string" where
  "show_int i = (if i < 0 then CHR ''-'' # show_nat (nat (- i)) else show_nat (nat i))"

definition show_id :: "int option \<Rightarrow> string" where
  "show_id v = (case v of None \<Rightarrow> ''null'' | Some i \<Rightarrow> show_int i)"

subsection \<open>Effects\<close>

text \<open>
  Every call the handler makes on the cache client, the database, the template engine
  and the logger is recorded, in program order.
\<close>

datatype effect =
    CacheGet string
  | CacheSet string payload nat
  | DbQuery string timestamp
  | DbInsert string ClickTrackingEvent
  | TemplateRender string TemplateData
  | LogInfo string
  | LogWarning string
  | LogError string

section \<open>The services the handler calls\<close>

subsection \<open>Cache client\<close>

text \<open>
  \<^verbatim>\<open>cacheClient\<close> is a key-value store with expiry. An entry holds the stored text
  and the instant at which it expires: written at instant \<open>t\<close> with time-to-live \<open>ttl\<close>
  it is readable at every instant before \<open>t + ttl\<close>. How the store answers the next
  read and the next write is part of its state: after how many milliseconds, and
  whether with a result or with a failure.
\<close>

datatype op_run = Responds nat | Breaks nat string

record cache_client =
  isConnected :: bool
  isHealthy :: bool
  entries :: "string \<rightharpoonup> payload \<times> timestamp"
  get_run :: op_run
  set_run :: op_run

definition live_value :: "cache_client \<Rightarrow> timestamp \<Rightarrow> string \<Rightarrow> payload option" where
  "live_value cc t key =
     (case entries cc key of
        None \<Rightarrow> None
      | Some (v, expires) \<Rightarrow> if t < expires then Some v else None)"

definition store_value ::
  "cache_client \<Rightarrow> timestamp \<Rightarrow> string \<Rightarrow> payload \<Rightarrow> nat \<Rightarrow> (string \<rightharpoonup> payload \<times> timestamp)" where
  "store_value cc t key v ttl = (entries cc)(key \<mapsto> (v, t + int ttl))"

definition plain_error :: "string \<Rightarrow> js_error" where
  "plain_error msg =
     \<lparr>err_statusCode = None, err_status = None, err_message = Some msg, err_errors = []\<rparr>"

text \<open>\<^verbatim>\<open>createTimeout\<close>: what the timeout promise throws.\<close>

definition TimeoutError :: "nat \<Rightarrow> js_error" where
  "TimeoutError milliseconds =
     plain_error (''Operation timed out after '' @ show_nat milliseconds @ ''ms'')"

text \<open>
  \<^verbatim>\<open>awaitFirstResolved([cachePromise, timeoutPromise])\<close>: the operation wins when
  it settles within the budget, the timeout wins when the operation exceeds it.
\<close>

datatype race_source = from_operation | from_timeout

record 'a race_result =
  rr_source :: race_source
  rr_value :: "'a option"
  rr_error :: "js_error option"

definition awaitFirstResolved :: "op_run \<Rightarrow> 'a option \<Rightarrow> nat \<Rightarrow> 'a race_result" where
  "awaitFirstResolved run v maxWaitTime =
     (case run of
        Responds ms \<Rightarrow>
          if ms \<le> maxWaitTime
          then \<lparr>rr_source = from_operation, rr_value = v, rr_error = None\<rparr>
          else \<lparr>rr_source = from_timeout, rr_value = None,
                rr_error = Some (TimeoutError maxWaitTime)\<rparr>
      | Breaks ms msg \<Rightarrow>
          if ms \<le> maxWaitTime
          then \<lparr>rr_source = from_operation, rr_value = None,
                rr_error = Some (plain_error msg)\<rparr>
          else \<lparr>rr_source = from_timeout, rr_value = None,
                rr_error = Some (TimeoutError maxWaitTime)\<rparr>)"

text \<open>
  \<^verbatim>\<open>cacheClient.getWithTimeout\<close> and \<^verbatim>\<open>cacheClient.setWithTimeout\<close>, as the
  controller calls them inside \<^verbatim>\<open>TRY\<close>: the race, with the loser's error thrown.
  A write that the store performs is in the store whether or not the caller was still
  waiting for it; a write that breaks is not.
\<close>

definition getWithTimeout ::
  "cache_client \<Rightarrow> timestamp \<Rightarrow> string \<Rightarrow> nat \<Rightarrow> js_error + payload option" where
  "getWithTimeout cc t key timeout =
     (let result = awaitFirstResolved (get_run cc) (live_value cc t key) timeout
      in case rr_error result of Some e \<Rightarrow> Inl e | None \<Rightarrow> Inr (rr_value result))"

definition entries_after_set ::
  "cache_client \<Rightarrow> timestamp \<Rightarrow> string \<Rightarrow> payload \<Rightarrow> nat \<Rightarrow> (string \<rightharpoonup> payload \<times> timestamp)" where
  "entries_after_set cc t key v ttl =
     (case set_run cc of
        Responds ms \<Rightarrow> store_value cc t key v ttl
      | Breaks ms msg \<Rightarrow> entries cc)"

definition setWithTimeout ::
  "cache_client \<Rightarrow> timestamp \<Rightarrow> string \<Rightarrow> payload \<Rightarrow> nat \<Rightarrow> nat
     \<Rightarrow> (js_error + unit) \<times> (string \<rightharpoonup> payload \<times> timestamp)" where
  "setWithTimeout cc t key v ttl timeout =
     (let result = awaitFirstResolved (set_run cc) (Some ()) timeout
      in (case rr_error result of Some e \<Rightarrow> Inl e | None \<Rightarrow> Inr (),
          entries_after_set cc t key v ttl))"

subsection \<open>Database\<close>

text \<open>
  The relational store: the two tables the query joins and the tracking table.
  \<open>query_run\<close> and \<open>insert_run\<close> say whether the next read and the next insert
  throw, and what.
\<close>

record database =
  affiliate_links :: "link_row list"
  campaigns :: "Campaign list"
  affiliate_tracking :: "tracking_row list"
  query_run :: "js_error option"
  insert_run :: "js_error option"

record world =
  cacheClient :: cache_client
  database :: database
  currentDateTime :: timestamp
  templateEngine :: "string \<Rightarrow> TemplateData \<Rightarrow> js_error + string"

record outcome =
  response :: http_response
  world_after :: world
  effects :: "effect list"

section \<open>Helper functions\<close>

definition toLowerCase_char :: "char \<Rightarrow> char" where
  "toLowerCase_char ch =
     (let n = (of_char ch :: nat) in if 65 \<le> n \<and> n \<le> 90 then char_of (n + 32) else ch)"

definition toLowerCase :: "string \<Rightarrow> string" where
  "toLowerCase s = map toLowerCase_char s"

text \<open>\<^verbatim>\<open>FUNCTION extractPathParameter(request, paramName)\<close>\<close>

definition extractPathParameter :: "request \<Rightarrow> string \<Rightarrow> string option" where
  "extractPathParameter req paramName = pathParameters req paramName"

text \<open>\<^verbatim>\<open>FUNCTION extractHeader(request, headerName)\<close>: the first header whose
  lower-cased name is the lower-cased \<open>headerName\<close>.\<close>

fun first_header :: "(string \<times> string) list \<Rightarrow> string \<Rightarrow> string option" where
  "first_header [] headerNameLower = None"
| "first_header ((name, v) # hs) headerNameLower =
     (if toLowerCase name = headerNameLower then Some v else first_header hs headerNameLower)"

definition extractHeader :: "request \<Rightarrow> string \<Rightarrow> string option" where
  "extractHeader req headerName = first_header (headers req) (toLowerCase headerName)"

text \<open>\<^verbatim>\<open>FUNCTION extractHTTPStatusCode(error, defaultCode = 500)\<close>\<close>

definition extractHTTPStatusCode :: "js_error \<Rightarrow> int \<Rightarrow> int" where
  "extractHTTPStatusCode error defaultCode =
     (case err_statusCode error of
        Some code \<Rightarrow> code
      | None \<Rightarrow> (case err_status error of Some code \<Rightarrow> code | None \<Rightarrow> defaultCode))"

text \<open>\<^verbatim>\<open>FUNCTION extractErrorMessage(error)\<close>\<close>

definition extractErrorMessage :: "js_error \<Rightarrow> string" where
  "extractErrorMessage error =
     (case err_message error of
        Some m \<Rightarrow> m
      | None \<Rightarrow>
          (case err_errors error of
             m # _ \<Rightarrow> m
           | [] \<Rightarrow> ''An unexpected error occurred''))"

text \<open>\<^verbatim>\<open>error.message\<close> inside a log line.\<close>

definition message_of :: "js_error \<Rightarrow> string" where
  "message_of error = (case err_message error of Some m \<Rightarrow> m | None \<Rightarrow> ''undefined'')"

section \<open>Database queries\<close>

text \<open>
  The rows of the query of \<^verbatim>\<open>queryAffiliateLinkFromDatabase\<close>, which is also the
  query the controller issues in its step 4:
  \<^verbatim>\<open>FROM affiliate_links al INNER JOIN campaigns c ON al.campaign_id = c.id
   WHERE al.coupon = ? AND c.start_on < NOW() AND c.end_on > NOW()\<close>.
\<close>

definition joined :: "link_row \<Rightarrow> Campaign \<Rightarrow> AffiliateLink" where
  "joined al c =
     \<lparr>al_id = Some (row_id al), al_coupon = row_coupon al,
      al_affiliate_id = row_affiliate_id al, al_campaign_id = row_campaign_id al,
      al_campaign = c, al_created_at = row_created_at al,
      al_updated_at = row_updated_at al\<rparr>"

definition query_rows :: "database \<Rightarrow> string \<Rightarrow> timestamp \<Rightarrow> AffiliateLink list" where
  "query_rows db coupon currentTime =
     [joined al c.
        al \<leftarrow> affiliate_links db, row_coupon al = coupon,
        c \<leftarrow> campaigns db, row_campaign_id al = c_id c,
        c_start_on c < currentTime \<and> c_end_on c > currentTime]"

text \<open>\<^verbatim>\<open>FUNCTION queryAffiliateLinkFromDatabase(coupon)\<close>, with \<^verbatim>\<open>limit: 1\<close>.\<close>

definition queryAffiliateLinkFromDatabase ::
  "database \<Rightarrow> timestamp \<Rightarrow> string \<Rightarrow> js_error + AffiliateLink option" where
  "queryAffiliateLinkFromDatabase db currentTime coupon =
     (case query_run db of
        Some error \<Rightarrow> Inl error
      | None \<Rightarrow>
          (case take 1 (query_rows db coupon currentTime) of
             row # _ \<Rightarrow> Inr (Some row)
           | [] \<Rightarrow> Inr None))"

text \<open>\<^verbatim>\<open>database.insert\<close> on table \<^verbatim>\<open>affiliate_tracking\<close>: appends the row
  under a fresh id, or throws.\<close>

definition database_insert :: "database \<Rightarrow> tracking_row \<Rightarrow> js_error + int \<times> database" where
  "database_insert db row =
     (case insert_run db of
        Some error \<Rightarrow> Inl error
      | None \<Rightarrow>
          (let insertedId = int (length (affiliate_tracking db)) + 1
           in Inr (insertedId,
                   db\<lparr>affiliate_tracking :=
                        affiliate_tracking db @ [row\<lparr>tr_id := insertedId\<rparr>]\<rparr>)))"

text \<open>The row that inserting an event object gives: its own members and the two
  timestamps.\<close>

definition row_of_event :: "ClickTrackingEvent \<Rightarrow> timestamp \<Rightarrow> tracking_row" where
  "row_of_event event t =
     \<lparr>tr_id = 0, tr_country = ev_country event, tr_affiliate_id = ev_affiliate_id event,
      tr_campaign_id = ev_campaign_id event, tr_link_id = ev_link_id event,
      tr_status = ev_status event, tr_payment = ev_payment event,
      tr_amount = ev_amount event, tr_created_at = t, tr_updated_at = t\<rparr>"

text \<open>\<^verbatim>\<open>FUNCTION insertClickTracking(event)\<close>: the columns it lists, payment and
  amount as the constants written there.\<close>

definition insertClickTracking ::
  "database \<Rightarrow> timestamp \<Rightarrow> ClickTrackingEvent \<Rightarrow> js_error + int \<times> database" where
  "insertClickTracking db t event =
     database_insert db
       \<lparr>tr_id = 0, tr_country = ev_country event, tr_affiliate_id = ev_affiliate_id event,
        tr_campaign_id = ev_campaign_id event, tr_link_id = ev_link_id event,
        tr_status = ev_status event, tr_payment = HOLD, tr_amount = 0,
        tr_created_at = t, tr_updated_at = t\<rparr>"

section \<open>Caching layer\<close>

definition cacheKey_of :: "string \<Rightarrow> string" where
  "cacheKey_of coupon = ''affiliate:link:'' @ coupon"

text \<open>
  \<^verbatim>\<open>FUNCTION getCachedAffiliateLink(coupon)\<close> and
  \<^verbatim>\<open>FUNCTION cacheAffiliateLink(coupon, affiliateLink, ttl)\<close>.
  \<^verbatim>\<open>awaitFirstResolved\<close> hands an error over as a member of its result; the two
  helpers read the source and the value of the result only, and their \<^verbatim>\<open>CATCH\<close>
  is reached by \<^verbatim>\<open>parseJSON\<close> alone.
\<close>

definition getCachedAffiliateLink ::
  "cache_client \<Rightarrow> timestamp \<Rightarrow> string \<Rightarrow> AffiliateLink option \<times> effect list" where
  "getCachedAffiliateLink cc t coupon =
     (let cacheKey = cacheKey_of coupon; maxWaitTime = 1000
      in if \<not> isConnected cc then (None, [LogWarning ''Cache client not connected''])
         else
           (let result = awaitFirstResolved (get_run cc) (live_value cc t cacheKey) maxWaitTime
            in if rr_source result = from_timeout
               then (None, [CacheGet cacheKey,
                            LogWarning (''Cache read timeout for key: '' @ cacheKey)])
               else
                 (case rr_value result of
                    None \<Rightarrow> (None, [CacheGet cacheKey])
                  | Some v \<Rightarrow>
                      (case parseJSON v of
                         Inl error \<Rightarrow>
                           (None, [CacheGet cacheKey,
                                   LogWarning (''Cache read error: '' @ message_of error)])
                       | Inr affiliateLink \<Rightarrow> (affiliateLink, [CacheGet cacheKey])))))"

definition cacheAffiliateLink ::
  "cache_client \<Rightarrow> timestamp \<Rightarrow> string \<Rightarrow> AffiliateLink \<Rightarrow> nat
     \<Rightarrow> bool \<times> (string \<rightharpoonup> payload \<times> timestamp) \<times> effect list" where
  "cacheAffiliateLink cc t coupon affiliateLink ttl =
     (let cacheKey = cacheKey_of coupon; maxWaitTime = 1000
      in if \<not> isConnected cc
         then (False, entries cc,
               [LogWarning ''Cache client not connected, skipping cache write''])
         else
           (let serializedData = toJSON affiliateLink;
                result = awaitFirstResolved (set_run cc) (Some ()) maxWaitTime;
                stored = entries_after_set cc t cacheKey serializedData ttl
            in if rr_source result = from_timeout
               then (False, stored,
                     [CacheSet cacheKey serializedData ttl,
                      LogWarning (''Cache write timeout for key: '' @ cacheKey)])
               else (True, stored,
                     [CacheSet cacheKey serializedData ttl,
                      LogInfo (''Successfully cached affiliate link: '' @ coupon)])))"

section \<open>Tracking system\<close>

text \<open>
  \<^verbatim>\<open>FUNCTION trackClickAsync(clickEvent)\<close>. The background task is run to its end:
  what it leaves is the database and the log lines; nothing of it is returned to the
  caller.
\<close>

definition trackClickAsync ::
  "database \<Rightarrow> timestamp \<Rightarrow> ClickTrackingEvent \<Rightarrow> database \<times> effect list" where
  "trackClickAsync db t clickEvent =
     (case insertClickTracking db t clickEvent of
        Inr (insertedId, db') \<Rightarrow>
          (db', [DbInsert ''affiliate_tracking'' clickEvent,
                 LogInfo (''Click tracked: link='' @ show_id (ev_link_id clickEvent)
                          @ '', country='' @ ev_country clickEvent)])
      | Inl error \<Rightarrow>
          (db, [DbInsert ''affiliate_tracking'' clickEvent,
                LogError (''Click tracking failed: '' @ message_of error)]))"

section \<open>Template rendering\<close>

text \<open>\<^verbatim>\<open>FUNCTION renderTemplate(response, templateName, data)\<close>: the page with
  status 200, or the engine's error logged and thrown again.\<close>

definition renderTemplate ::
  "world \<Rightarrow> string \<Rightarrow> TemplateData \<Rightarrow> (js_error + http_response) \<times> effect list" where
  "renderTemplate w templateName templateData =
     (let templatePath = ''views/'' @ templateName @ ''.ejs''
      in case templateEngine w templatePath templateData of
           Inr html \<Rightarrow> (Inr (Html 200 html), [TemplateRender templateName templateData])
         | Inl error \<Rightarrow>
             (Inl error,
              [TemplateRender templateName templateData,
               LogError (''Template rendering failed: '' @ message_of error)]))"

section \<open>Main controller function\<close>

text \<open>Steps 2 and 3 of \<^verbatim>\<open>handlePromotionCouponRequest\<close>: the cache key and the
  guarded cache read. A failed or late read and a text that does not parse are caught
  and logged as warnings.\<close>

definition cacheRetrieval ::
  "cache_client \<Rightarrow> timestamp \<Rightarrow> string \<Rightarrow> AffiliateLink option \<times> effect list" where
  "cacheRetrieval cc t coupon =
     (let cacheKey = cacheKey_of coupon
      in if isConnected cc \<and> isHealthy cc
         then
           (case getWithTimeout cc t cacheKey 1000 of
              Inl cacheError \<Rightarrow>
                (None, [CacheGet cacheKey,
                        LogWarning (''Cache read failed: '' @ message_of cacheError)])
            | Inr None \<Rightarrow> (None, [CacheGet cacheKey])
            | Inr (Some cachedData) \<Rightarrow>
                (case parseJSON cachedData of
                   Inl cacheError \<Rightarrow>
                     (None, [CacheGet cacheKey,
                             LogWarning (''Cache read failed: '' @ message_of cacheError)])
                 | Inr affiliateLink \<Rightarrow>
                     (affiliateLink, [CacheGet cacheKey,
                                      LogInfo (''Cache hit for coupon: '' @ coupon)])))
         else (None, []))"

text \<open>Steps 4 and 5: the database query on a cache miss, and the write-back of a
  found link when the cache client is connected. A thrown query error leaves the
  function; a failed or late write is caught and logged.\<close>

definition databaseFallback ::
  "world \<Rightarrow> string
     \<Rightarrow> (js_error + AffiliateLink option) \<times> (string \<rightharpoonup> payload \<times> timestamp) \<times> effect list" where
  "databaseFallback w coupon =
     (let cc = cacheClient w; t = currentDateTime w; cacheKey = cacheKey_of coupon;
          asked = [LogInfo (''Cache miss for coupon: '' @ coupon), DbQuery coupon t]
      in case queryAffiliateLinkFromDatabase (database w) t coupon of
           Inl error \<Rightarrow> (Inl error, entries cc, asked)
         | Inr None \<Rightarrow> (Inr None, entries cc, asked)
         | Inr (Some affiliateLink) \<Rightarrow>
             if isConnected cc
             then
               (case setWithTimeout cc t cacheKey (toJSON affiliateLink) 1800 1000 of
                  (Inr u, stored) \<Rightarrow>
                    (Inr (Some affiliateLink), stored,
                     asked @ [CacheSet cacheKey (toJSON affiliateLink) 1800,
                              LogInfo (''Cached affiliate link: '' @ coupon)])
                | (Inl cacheError, stored) \<Rightarrow>
                    (Inr (Some affiliateLink), stored,
                     asked @ [CacheSet cacheKey (toJSON affiliateLink) 1800,
                              LogWarning (''Cache write failed: '' @ message_of cacheError)]))
             else (Inr (Some affiliateLink), entries cc, asked))"

text \<open>Steps 2 to 5 together: the value of \<^verbatim>\<open>affiliateLink\<close> before step 6, the
  cache entries left behind, and the effects.\<close>

definition resolveAffiliateLink ::
  "world \<Rightarrow> string
     \<Rightarrow> (js_error + AffiliateLink option) \<times> (string \<rightharpoonup> payload \<times> timestamp) \<times> effect list" where
  "resolveAffiliateLink w coupon =
     (case cacheRetrieval (cacheClient w) (currentDateTime w) coupon of
        (Some affiliateLink, fx) \<Rightarrow> (Inr (Some affiliateLink), entries (cacheClient w), fx)
      | (None, fx) \<Rightarrow>
          (case databaseFallback w coupon of
             (found, stored, fx') \<Rightarrow> (found, stored, fx @ fx')))"

text \<open>Step 7: the country of the request. \<^verbatim>\<open>request.headers[...]\<close> is the header
  lookup that the source spells out as \<^verbatim>\<open>extractHeader\<close>.\<close>

definition country_of :: "request \<Rightarrow> string" where
  "country_of req =
     (case extractHeader req ''cf-ipcountry'' of
        None \<Rightarrow> ''UNKNOWN''
      | Some country \<Rightarrow> if country = [] then ''UNKNOWN'' else country)"

text \<open>Step 8: the task given to \<^verbatim>\<open>executeAsync\<close>, run to its end.\<close>

definition trackClick ::
  "database \<Rightarrow> timestamp \<Rightarrow> AffiliateLink \<Rightarrow> ClickTrackingEvent \<Rightarrow> database \<times> effect list" where
  "trackClick db t affiliateLink clickEvent =
     (case database_insert db (row_of_event clickEvent t) of
        Inr (insertedId, db') \<Rightarrow>
          (db', [DbInsert ''affiliate_tracking'' clickEvent,
                 LogInfo (''Click tracked for link: '' @ show_id (al_id affiliateLink))])
      | Inl trackingError \<Rightarrow>
          (db, [DbInsert ''affiliate_tracking'' clickEvent,
                LogError (''Click tracking failed: '' @ message_of trackingError)]))"

text \<open>The outer \<^verbatim>\<open>CATCH error\<close>: the JSON error response.\<close>

definition sendJSONError :: "js_error \<Rightarrow> http_response \<times> effect list" where
  "sendJSONError error =
     (let extracted = extractHTTPStatusCode error 500;
          statusCode = (if extracted = 0 then 500 else extracted);
          errorMessage = extractErrorMessage error
      in (JSONError statusCode errorMessage,
          [LogError (''Coupon request failed: '' @ message_of error)]))"

definition with_entries :: "world \<Rightarrow> (string \<rightharpoonup> payload \<times> timestamp) \<Rightarrow> world" where
  "with_entries w stored = w\<lparr>cacheClient := (cacheClient w)\<lparr>entries := stored\<rparr>\<rparr>"

text \<open>Steps 6 to 9 for a link that was found with an id.\<close>

definition trackAndRender :: "world \<Rightarrow> request \<Rightarrow> AffiliateLink \<Rightarrow> effect list \<Rightarrow> outcome" where
  "trackAndRender w req affiliateLink fx =
     (let country = country_of req;
          clickEvent = new_ClickTrackingEvent country (al_affiliate_id affiliateLink)
                         (al_campaign_id affiliateLink) (al_id affiliateLink) CLICK;
          (db', tracked) = trackClick (database w) (currentDateTime w) affiliateLink clickEvent;
          templateData = \<lparr>td_data = affiliateLink, td_country = country\<rparr>;
          w' = w\<lparr>database := db'\<rparr>
      in case renderTemplate w ''coupon_redirect'' templateData of
           (Inr page, rendered) \<Rightarrow>
             \<lparr>response = page, world_after = w', effects = fx @ tracked @ rendered\<rparr>
         | (Inl error, rendered) \<Rightarrow>
             (case sendJSONError error of
                (reply, logged) \<Rightarrow>
                  \<lparr>response = reply, world_after = w',
                   effects = fx @ tracked @ rendered @ logged\<rparr>))"

text \<open>\<^verbatim>\<open>FUNCTION handlePromotionCouponRequest(request, response)\<close>\<close>

definition handlePromotionCouponRequest :: "world \<Rightarrow> request \<Rightarrow> outcome" where
  "handlePromotionCouponRequest w req =
     (case pathParameters req ''coupon'' of
        None \<Rightarrow> \<lparr>response = Redirect ''/pricing'', world_after = w, effects = []\<rparr>
      | Some coupon \<Rightarrow>
          if coupon = []
          then \<lparr>response = Redirect ''/pricing'', world_after = w, effects = []\<rparr>
          else
            (case resolveAffiliateLink w coupon of
               (Inl error, stored, fx) \<Rightarrow>
                 (case sendJSONError error of
                    (reply, logged) \<Rightarrow>
                      \<lparr>response = reply, world_after = with_entries w stored,
                       effects = fx @ logged\<rparr>)
             | (Inr None, stored, fx) \<Rightarrow>
                 \<lparr>response = Redirect ''/pricing'', world_after = with_entries w stored,
                  effects = fx @ [LogInfo (''Invalid coupon: '' @ coupon)]\<rparr>
             | (Inr (Some affiliateLink), stored, fx) \<Rightarrow>
                 if al_id affiliateLink = None
                 then \<lparr>response = Redirect ''/pricing'', world_after = with_entries w stored,
                       effects = fx @ [LogInfo (''Invalid coupon: '' @ coupon)]\<rparr>
                 else trackAndRender (with_entries w stored) req affiliateLink fx))"

section \<open>A worked example\<close>

text \<open>
  The sample of the endpoint documentation: campaign 456 "Summer Sale", open from
  2024-06-01 to 2024-08-31 (instants 1717200000 and 1725062400), and link 789 of
  affiliate 123 with coupon SUMMER2024.
\<close>

definition summer_sale :: Campaign where
  "summer_sale =
     \<lparr>c_id = 456, c_title = ''Summer Sale'', c_url = ''https://example.com/signup'',
      c_image_id = None, c_description = ''Get 50% off!'',
      c_start_on = 1717200000, c_end_on = 1725062400, c_package_id = 1,
      c_commission_type = PERCENTAGE, c_commission = 25, c_approval = ACTIVE,
      c_status = ACTIVE, c_created_at = 1717000000, c_updated_at = 1717000000\<rparr>"

definition summer_row :: link_row where
  "summer_row =
     \<lparr>row_id = 789, row_coupon = ''SUMMER2024'', row_affiliate_id = 123,
      row_campaign_id = 456, row_created_at = 1717100000, row_updated_at = 1717100000\<rparr>"

definition summer_link :: AffiliateLink where
  "summer_link = joined summer_row summer_sale"

definition shop_db :: database where
  "shop_db =
     \<lparr>affiliate_links = [summer_row], campaigns = [summer_sale],
      affiliate_tracking = [], query_run = None, insert_run = None\<rparr>"

definition empty_cache :: cache_client where
  "empty_cache =
     \<lparr>isConnected = True, isHealthy = True, entries = Map.empty,
      get_run = Responds 3, set_run = Responds 3\<rparr>"

definition page_engine :: "string \<Rightarrow> TemplateData \<Rightarrow> js_error + string" where
  "page_engine templatePath templateData =
     Inr (''<html>'' @ c_url (al_campaign (td_data templateData)) @ ''?coupon=''
          @ al_coupon (td_data templateData) @ ''&country='' @ td_country templateData
          @ ''</html>'')"

definition shop :: "cache_client \<Rightarrow> timestamp \<Rightarrow> world" where
  "shop cc t =
     \<lparr>cacheClient = cc, database = shop_db, currentDateTime = t,
      templateEngine = page_engine\<rparr>"

definition summer_request :: "(string \<times> string) list \<Rightarrow> request" where
  "summer_request hs =
     \<lparr>pathParameters = [''coupon'' \<mapsto> ''SUMMER2024''], headers = hs\<rparr>"

definition warm_cache :: cache_client where
  "warm_cache =
     empty_cache\<lparr>entries := [cacheKey_of ''SUMMER2024'' \<mapsto> (toJSON summer_link, 1725063800)]\<rparr>"

definition offline_cache :: cache_client where
  "offline_cache = empty_cache\<lparr>isConnected := False\<rparr>"

definition readonly_cache :: cache_client where
  "readonly_cache = empty_cache\<lparr>set_run := Breaks 2 ''READONLY''\<rparr>"

definition unhealthy_cache :: cache_client where
  "unhealthy_cache = empty_cache\<lparr>isHealthy := False\<rparr>"

text \<open>The shop with a database whose reads throw.\<close>

definition shop_down :: "cache_client \<Rightarrow> timestamp \<Rightarrow> world" where
  "shop_down cc t =
     (shop cc t)\<lparr>database :=
                   shop_db\<lparr>query_run := Some (plain_error ''Database connection failed'')\<rparr>\<rparr>"

definition slow_cache :: cache_client where
  "slow_cache = warm_cache\<lparr>get_run := Responds 1500\<rparr>"

section \<open>Notions the properties are stated with\<close>

text \<open>The repository holds an affiliate-link row with the coupon whose campaign has
  \<open>start_on < now\<close> and \<open>end_on > now\<close>.\<close>

definition active_row_exists :: "database \<Rightarrow> string \<Rightarrow> timestamp \<Rightarrow> bool" where
  "active_row_exists db coupon now =
     (\<exists>al \<in> set (affiliate_links db). \<exists>c \<in> set (campaigns db).
        row_coupon al = coupon \<and> row_campaign_id al = c_id c
        \<and> c_start_on c < now \<and> c_end_on c > now)"

text \<open>The cache read cannot give a value: the client is disconnected, or the read
  breaks, or it takes longer than the budget of 1000 ms.\<close>

definition read_degraded :: "cache_client \<Rightarrow> bool" where
  "read_degraded cc =
     (\<not> isConnected cc
      \<or> (case get_run cc of Responds ms \<Rightarrow> ms > 1000 | Breaks ms msg \<Rightarrow> True))"

text \<open>The same world with a cache that is connected and healthy, answers the read at
  once and holds nothing under the coupon's key: a plain cache miss.\<close>

definition plain_miss :: "world \<Rightarrow> string \<Rightarrow> world" where
  "plain_miss w coupon =
     w\<lparr>cacheClient :=
         (cacheClient w)\<lparr>isConnected := True, isHealthy := True, get_run := Responds 0,
                         entries := (entries (cacheClient w))(cacheKey_of coupon := None)\<rparr>\<rparr>"

text \<open>The same world with the next tracking insert succeeding or throwing.\<close>

definition with_insert_run :: "world \<Rightarrow> js_error option \<Rightarrow> world" where
  "with_insert_run w r = w\<lparr>database := (database w)\<lparr>insert_run := r\<rparr>\<rparr>"

text \<open>The same world at another instant, and with another database.\<close>

definition at_instant :: "world \<Rightarrow> timestamp \<Rightarrow> world" where
  "at_instant w t = w\<lparr>currentDateTime := t\<rparr>"


text \<open>The tracking rows a request added to the table.\<close>

definition persisted_rows :: "world \<Rightarrow> request \<Rightarrow> tracking_row list" where
  "persisted_rows w req =
     drop (length (affiliate_tracking (database w)))
       (affiliate_tracking (database (world_after (handlePromotionCouponRequest w req))))"

text \<open>The tracking row of a click on a link, as the handler's step 8 stores it.\<close>

definition click_row :: "world \<Rightarrow> request \<Rightarrow> AffiliateLink \<Rightarrow> tracking_row" where
  "click_row w req link =
     \<lparr>tr_id = int (length (affiliate_tracking (database w))) + 1,
      tr_country = country_of req, tr_affiliate_id = al_affiliate_id link,
      tr_campaign_id = al_campaign_id link, tr_link_id = al_id link,
      tr_status = CLICK, tr_payment = HOLD, tr_amount = 0,
      tr_created_at = currentDateTime w, tr_updated_at = currentDateTime w\<rparr>"

section \<open>Properties\<close>

subsection \<open>How the handler's steps compose\<close>

lemma lower_header_name: "toLowerCase ''cf-ipcountry'' = ''cf-ipcountry''"
  by code_simp

lemma with_entries_simps [simp]:
  "templateEngine (with_entries w stored) = templateEngine w"
  "database (with_entries w stored) = database w"
  "currentDateTime (with_entries w stored) = currentDateTime w"
  "entries (cacheClient (with_entries w stored)) = stored"
  by (simp_all add: with_entries_def)

lemma handle_found:
  assumes "pathParameters req ''coupon'' = Some coupon" and "coupon \<noteq> []"
    and "resolveAffiliateLink w coupon = (Inr (Some link), stored, fx)"
    and "al_id link \<noteq> None"
  shows "handlePromotionCouponRequest w req
           = trackAndRender (with_entries w stored) req link fx"
  using assms by (auto simp add: handlePromotionCouponRequest_def)

lemma handle_not_found:
  assumes "pathParameters req ''coupon'' = Some coupon" and "coupon \<noteq> []"
    and "resolveAffiliateLink w coupon = (Inr None, stored, fx)"
  shows "handlePromotionCouponRequest w req =
           \<lparr>response = Redirect ''/pricing'', world_after = with_entries w stored,
            effects = fx @ [LogInfo (''Invalid coupon: '' @ coupon)]\<rparr>"
  using assms by (simp add: handlePromotionCouponRequest_def)

lemma handle_thrown:
  assumes "pathParameters req ''coupon'' = Some coupon" and "coupon \<noteq> []"
    and "resolveAffiliateLink w coupon = (Inl error, stored, fx)"
  shows "handlePromotionCouponRequest w req =
           \<lparr>response = fst (sendJSONError error), world_after = with_entries w stored,
            effects = fx @ snd (sendJSONError error)\<rparr>"
  using assms by (simp add: handlePromotionCouponRequest_def split: prod.splits)

lemma response_trackAndRender:
  "response (trackAndRender w req link fx) =
     (case templateEngine w ''views/coupon_redirect.ejs''
             \<lparr>td_data = link, td_country = country_of req\<rparr> of
        Inr html \<Rightarrow> Html 200 html
      | Inl error \<Rightarrow> fst (sendJSONError error))"
  by (simp add: trackAndRender_def renderTemplate_def Let_def split: prod.splits sum.splits)

lemma effects_trackAndRender_query:
  "DbQuery c t \<in> set (effects (trackAndRender w req link fx)) \<longleftrightarrow> DbQuery c t \<in> set fx"
  by (auto simp add: trackAndRender_def renderTemplate_def trackClick_def database_insert_def
        sendJSONError_def Let_def split: prod.splits sum.splits option.splits)

lemma resolve_hit:
  assumes "isConnected (cacheClient w)" and "isHealthy (cacheClient w)"
    and "getWithTimeout (cacheClient w) (currentDateTime w) (cacheKey_of coupon) 1000
           = Inr (Some (Snapshot link))"
  shows "resolveAffiliateLink w coupon =
           (Inr (Some link), entries (cacheClient w),
            [CacheGet (cacheKey_of coupon), LogInfo (''Cache hit for coupon: '' @ coupon)])"
  using assms by (simp add: resolveAffiliateLink_def cacheRetrieval_def)

lemma resolve_miss:
  assumes "fst (cacheRetrieval (cacheClient w) (currentDateTime w) coupon) = None"
  shows "resolveAffiliateLink w coupon =
           (fst (databaseFallback w coupon), fst (snd (databaseFallback w coupon)),
            snd (cacheRetrieval (cacheClient w) (currentDateTime w) coupon)
            @ snd (snd (databaseFallback w coupon)))"
  using assms
  by (cases "cacheRetrieval (cacheClient w) (currentDateTime w) coupon")
     (simp add: resolveAffiliateLink_def split: prod.splits)

lemma fallback_found:
  "fst (databaseFallback w coupon)
     = queryAffiliateLinkFromDatabase (database w) (currentDateTime w) coupon"
  by (simp add: databaseFallback_def Let_def split: sum.splits option.splits prod.splits)

subsection \<open>The repository query\<close>

lemma set_query_rows:
  "set (query_rows db coupon t) =
     {joined al c |al c. al \<in> set (affiliate_links db) \<and> row_coupon al = coupon
        \<and> c \<in> set (campaigns db) \<and> row_campaign_id al = c_id c
        \<and> c_start_on c < t \<and> c_end_on c > t}"
  by (auto simp add: query_rows_def)

lemma query_rows_empty:
  "query_rows db coupon t = [] \<longleftrightarrow> \<not> active_row_exists db coupon t"
proof -
  have "query_rows db coupon t = [] \<longleftrightarrow> set (query_rows db coupon t) = {}"
    by simp
  also have "\<dots> \<longleftrightarrow> \<not> active_row_exists db coupon t"
    unfolding set_query_rows active_row_exists_def by blast
  finally show ?thesis .
qed

lemma query_none:
  "query_run db = None \<Longrightarrow>
     queryAffiliateLinkFromDatabase db t coupon = Inr None \<longleftrightarrow> \<not> active_row_exists db coupon t"
  by (cases "query_rows db coupon t")
     (auto simp add: queryAffiliateLinkFromDatabase_def query_rows_empty [symmetric])

lemma query_some_id:
  assumes "queryAffiliateLinkFromDatabase db t coupon = Inr (Some link)"
  shows "al_id link \<noteq> None"
proof -
  from assms have "link \<in> set (query_rows db coupon t)"
    by (cases "query_rows db coupon t")
       (auto simp add: queryAffiliateLinkFromDatabase_def split: option.splits)
  then obtain al c where "link = joined al c" unfolding set_query_rows by blast
  then show ?thesis by (simp add: joined_def)
qed

lemma query_not_thrown:
  "query_run db = None \<Longrightarrow> queryAffiliateLinkFromDatabase db t coupon \<noteq> Inl e"
  by (auto simp add: queryAffiliateLinkFromDatabase_def split: list.splits)

subsection \<open>Empty or missing coupon code\<close>

text \<open>
  Claim C6. For an empty or missing coupon code the handler answers with the redirect
  to \<^verbatim>\<open>/pricing\<close> (status 302) and does nothing else: it makes no call at all, so
  neither a cache read nor a repository read, and it leaves the world as it was.
\<close>

theorem empty_coupon_redirects_without_queries:
  assumes "pathParameters req ''coupon'' = None \<or> pathParameters req ''coupon'' = Some []"
  shows "response (handlePromotionCouponRequest w req) = Redirect ''/pricing''
         \<and> http_status (response (handlePromotionCouponRequest w req)) = 302
         \<and> effects (handlePromotionCouponRequest w req) = []
         \<and> (\<forall>k. CacheGet k \<notin> set (effects (handlePromotionCouponRequest w req)))
         \<and> (\<forall>c t. DbQuery c t \<notin> set (effects (handlePromotionCouponRequest w req)))
         \<and> world_after (handlePromotionCouponRequest w req) = w"
  using assms by (auto simp add: handlePromotionCouponRequest_def)

theorem empty_coupon_redirects_witness:
  "pathParameters \<lparr>pathParameters = [''coupon'' \<mapsto> []], headers = []\<rparr> ''coupon'' = Some []
   \<and> pathParameters \<lparr>pathParameters = Map.empty, headers = []\<rparr> ''coupon'' = None
   \<and> response (handlePromotionCouponRequest (shop warm_cache 1720000000)
                 \<lparr>pathParameters = [''coupon'' \<mapsto> []], headers = []\<rparr>) = Redirect ''/pricing''
   \<and> effects (handlePromotionCouponRequest (shop warm_cache 1720000000)
                 \<lparr>pathParameters = [''coupon'' \<mapsto> []], headers = []\<rparr>) = []
   \<and> response (handlePromotionCouponRequest (shop warm_cache 1720000000)
                 \<lparr>pathParameters = Map.empty, headers = []\<rparr>) = Redirect ''/pricing''
   \<and> effects (handlePromotionCouponRequest (shop warm_cache 1720000000)
                 \<lparr>pathParameters = Map.empty, headers = []\<rparr>) = []"
  using empty_coupon_redirects_without_queries
          [of "\<lparr>pathParameters = [''coupon'' \<mapsto> []], headers = []\<rparr>"
              "shop warm_cache 1720000000"]
        empty_coupon_redirects_without_queries
          [of "\<lparr>pathParameters = Map.empty, headers = []\<rparr>"
              "shop warm_cache 1720000000"]
  by simp

subsection \<open>Cache hit\<close>

text \<open>
  Claim C2. Whenever the guarded cache read of the key \<^verbatim>\<open>affiliate:link:{coupon}\<close>
  returns a stored snapshot, the resolver returns the link of that snapshot, and
  neither the resolver nor the rest of the handler queries the repository.
\<close>

theorem cache_hit_skips_repository:
  assumes "isConnected (cacheClient w)" and "isHealthy (cacheClient w)"
    and "getWithTimeout (cacheClient w) (currentDateTime w) (cacheKey_of coupon) 1000
           = Inr (Some (Snapshot link))"
    and "pathParameters req ''coupon'' = Some coupon"
  shows "fst (resolveAffiliateLink w coupon) = Inr (Some link)
         \<and> (\<forall>c t. DbQuery c t \<notin> set (snd (snd (resolveAffiliateLink w coupon))))
         \<and> (\<forall>c t. DbQuery c t \<notin> set (effects (handlePromotionCouponRequest w req)))"
proof -
  note hit = resolve_hit [OF assms(1-3)]
  have "\<forall>c t. DbQuery c t \<notin> set (effects (handlePromotionCouponRequest w req))"
  proof (cases "coupon = []")
    case True
    then show ?thesis using assms(4) by (simp add: handlePromotionCouponRequest_def)
  next
    case False
    show ?thesis
    proof (cases "al_id link")
      case None
      then show ?thesis
        using assms(4) False hit by (simp add: handlePromotionCouponRequest_def)
    next
      case (Some i)
      then have "al_id link \<noteq> None" by simp
      from handle_found [OF assms(4) False hit this] show ?thesis
        by (simp add: effects_trackAndRender_query)
    qed
  qed
  with hit show ?thesis by simp
qed

theorem cache_hit_skips_repository_witness:
  "isConnected (cacheClient (shop warm_cache 1720000000))
   \<and> isHealthy (cacheClient (shop warm_cache 1720000000))
   \<and> getWithTimeout (cacheClient (shop warm_cache 1720000000))
        (currentDateTime (shop warm_cache 1720000000)) (cacheKey_of ''SUMMER2024'') 1000
       = Inr (Some (Snapshot summer_link))
   \<and> pathParameters (summer_request []) ''coupon'' = Some ''SUMMER2024''
   \<and> fst (resolveAffiliateLink (shop warm_cache 1720000000) ''SUMMER2024'')
       = Inr (Some summer_link)
   \<and> (\<forall>c t. DbQuery c t \<notin> set (effects (handlePromotionCouponRequest
                                            (shop warm_cache 1720000000) (summer_request []))))"
proof -
  have conn: "isConnected (cacheClient (shop warm_cache 1720000000))"
    and healthy: "isHealthy (cacheClient (shop warm_cache 1720000000))"
    by (simp_all add: shop_def warm_cache_def empty_cache_def)
  have read: "getWithTimeout (cacheClient (shop warm_cache 1720000000))
                (currentDateTime (shop warm_cache 1720000000)) (cacheKey_of ''SUMMER2024'') 1000
              = Inr (Some (Snapshot summer_link))"
    by (simp add: shop_def warm_cache_def empty_cache_def getWithTimeout_def
          awaitFirstResolved_def live_value_def toJSON_def)
  have param: "pathParameters (summer_request []) ''coupon'' = Some ''SUMMER2024''"
    by (simp add: summer_request_def)
  from cache_hit_skips_repository [OF conn healthy read param] conn healthy read param
  show ?thesis by blast
qed

subsection \<open>The campaign window\<close>

text \<open>
  Claim C10. On a cache hit the decision between found and not found looks only at
  the snapshot and its id: whenever the guarded read returns a snapshot whose id is
  not null and the template renders, the answer is the 200 page, whatever the
  campaign window, the clock and the repository are. So there is a snapshot, cached
  by a resolution while its campaign was active, with which a resolution inside the
  time-to-live, at an instant that is not before \<open>end_on\<close>, still answers 200, without
  asking the repository, which at that instant has no active row.
\<close>

theorem cache_hit_bypasses_campaign_window:
  "(\<forall>(w::world) (req::request) coupon link html.
      isConnected (cacheClient w) \<and> isHealthy (cacheClient w)
      \<and> getWithTimeout (cacheClient w) (currentDateTime w) (cacheKey_of coupon) 1000
          = Inr (Some (Snapshot link))
      \<and> pathParameters req ''coupon'' = Some coupon \<and> coupon \<noteq> []
      \<and> al_id link \<noteq> None
      \<and> templateEngine w ''views/coupon_redirect.ejs''
            \<lparr>td_data = link, td_country = country_of req\<rparr> = Inr html
      \<longrightarrow> response (handlePromotionCouponRequest w req) = Html 200 html)
   \<and> (\<exists>(w::world) (req::request) now.
        active_row_exists (database w) ''SUMMER2024'' (currentDateTime w)
        \<and> DbQuery ''SUMMER2024'' (currentDateTime w)
             \<in> set (effects (handlePromotionCouponRequest w req))
        \<and> http_status (response (handlePromotionCouponRequest w req)) = 200
        \<and> (\<forall>c \<in> set (campaigns (database w)). c_end_on c \<le> now)
        \<and> currentDateTime w \<le> now \<and> now < currentDateTime w + 1800
        \<and> \<not> active_row_exists (database w) ''SUMMER2024'' now
        \<and> http_status (response (handlePromotionCouponRequest
              (at_instant (world_after (handlePromotionCouponRequest w req)) now) req)) = 200
        \<and> (\<forall>c t. DbQuery c t \<notin> set (effects (handlePromotionCouponRequest
              (at_instant (world_after (handlePromotionCouponRequest w req)) now) req))))"
proof (intro conjI allI impI)
  fix w :: world and req :: request and coupon link html
  assume a: "isConnected (cacheClient w) \<and> isHealthy (cacheClient w)
      \<and> getWithTimeout (cacheClient w) (currentDateTime w) (cacheKey_of coupon) 1000
          = Inr (Some (Snapshot link))
      \<and> pathParameters req ''coupon'' = Some coupon \<and> coupon \<noteq> []
      \<and> al_id link \<noteq> None
      \<and> templateEngine w ''views/coupon_redirect.ejs''
            \<lparr>td_data = link, td_country = country_of req\<rparr> = Inr html"
  then have hit: "resolveAffiliateLink w coupon =
           (Inr (Some link), entries (cacheClient w),
            [CacheGet (cacheKey_of coupon), LogInfo (''Cache hit for coupon: '' @ coupon)])"
    by (intro resolve_hit) simp_all
  from a have "handlePromotionCouponRequest w req
      = trackAndRender (with_entries w (entries (cacheClient w))) req link
          [CacheGet (cacheKey_of coupon), LogInfo (''Cache hit for coupon: '' @ coupon)]"
    by (intro handle_found [OF _ _ hit]) simp_all
  with a show "response (handlePromotionCouponRequest w req) = Html 200 html"
    by (simp add: response_trackAndRender)
next
  let ?w = "shop empty_cache 1725062000"
  let ?req = "summer_request []"
  let ?now = "1725062400 :: int"
  show "\<exists>(w::world) (req::request) now.
        active_row_exists (database w) ''SUMMER2024'' (currentDateTime w)
        \<and> DbQuery ''SUMMER2024'' (currentDateTime w)
             \<in> set (effects (handlePromotionCouponRequest w req))
        \<and> http_status (response (handlePromotionCouponRequest w req)) = 200
        \<and> (\<forall>c \<in> set (campaigns (database w)). c_end_on c \<le> now)
        \<and> currentDateTime w \<le> now \<and> now < currentDateTime w + 1800
        \<and> \<not> active_row_exists (database w) ''SUMMER2024'' now
        \<and> http_status (response (handlePromotionCouponRequest
              (at_instant (world_after (handlePromotionCouponRequest w req)) now) req)) = 200
        \<and> (\<forall>c t. DbQuery c t \<notin> set (effects (handlePromotionCouponRequest
              (at_instant (world_after (handlePromotionCouponRequest w req)) now) req)))"
    apply (rule exI [of _ ?w], rule exI [of _ ?req], rule exI [of _ ?now])
    apply (simp add: handlePromotionCouponRequest_def summer_request_def at_instant_def
          resolveAffiliateLink_def cacheRetrieval_def databaseFallback_def shop_def
          empty_cache_def getWithTimeout_def setWithTimeout_def awaitFirstResolved_def
          live_value_def entries_after_set_def store_value_def cacheKey_of_def toJSON_def
          queryAffiliateLinkFromDatabase_def query_rows_def shop_db_def summer_row_def
          summer_sale_def joined_def trackAndRender_def trackClick_def
          database_insert_def row_of_event_def new_ClickTrackingEvent_def renderTemplate_def
          page_engine_def country_of_def extractHeader_def lower_header_name with_entries_def
          active_row_exists_def Let_def)
    done
qed

theorem cache_hit_bypasses_campaign_window_witness:
  "isConnected (cacheClient (shop warm_cache 1725062400))
   \<and> isHealthy (cacheClient (shop warm_cache 1725062400))
   \<and> getWithTimeout (cacheClient (shop warm_cache 1725062400))
        (currentDateTime (shop warm_cache 1725062400)) (cacheKey_of ''SUMMER2024'') 1000
       = Inr (Some (Snapshot summer_link))
   \<and> al_id summer_link \<noteq> None
   \<and> c_end_on (al_campaign summer_link) \<le> currentDateTime (shop warm_cache 1725062400)
   \<and> response (handlePromotionCouponRequest (shop warm_cache 1725062400) (summer_request []))
       = Html 200 ''<html>https://example.com/signup?coupon=SUMMER2024&country=UNKNOWN</html>''"
proof -
  let ?w = "shop warm_cache 1725062400"
  let ?html = "''<html>https://example.com/signup?coupon=SUMMER2024&country=UNKNOWN</html>''"
  have conn: "isConnected (cacheClient ?w)" and healthy: "isHealthy (cacheClient ?w)"
    by (simp_all add: shop_def warm_cache_def empty_cache_def)
  have read: "getWithTimeout (cacheClient ?w) (currentDateTime ?w) (cacheKey_of ''SUMMER2024'') 1000
              = Inr (Some (Snapshot summer_link))"
    by (simp add: shop_def warm_cache_def empty_cache_def getWithTimeout_def
          awaitFirstResolved_def live_value_def toJSON_def)
  have param: "pathParameters (summer_request []) ''coupon'' = Some ''SUMMER2024''"
    by (simp add: summer_request_def)
  have ident: "al_id summer_link \<noteq> None"
    by (simp add: summer_link_def joined_def)
  have late: "c_end_on (al_campaign summer_link) \<le> currentDateTime ?w"
    by (simp add: summer_link_def joined_def summer_sale_def shop_def)
  have page: "templateEngine ?w ''views/coupon_redirect.ejs''
                \<lparr>td_data = summer_link, td_country = country_of (summer_request [])\<rparr> = Inr ?html"
    by (simp add: shop_def page_engine_def summer_link_def joined_def summer_sale_def
          summer_row_def country_of_def extractHeader_def summer_request_def)
  from cache_hit_bypasses_campaign_window
  have "response (handlePromotionCouponRequest ?w (summer_request [])) = Html 200 ?html"
    using conn healthy read param ident page by blast
  with conn healthy read ident late show ?thesis by blast
qed

text \<open>
  Counterexample to claim C1 as written. The claim fails on a cache hit: a snapshot
  that is still in the cache (here the one a resolution at instant 1725062000 wrote)
  decides the resolution without the repository, also at the boundary instant
  \<open>now = end_on\<close>, where the repository has no active row and the answer is the 200
  page all the same. It also fails when the repository read throws: there is no
  active row, and the answer is the JSON error, not the redirect.
\<close>

theorem boundary_instant_counterexample:
  "currentDateTime (shop warm_cache 1725062400) = c_end_on summer_sale
   \<and> \<not> active_row_exists (database (shop warm_cache 1725062400)) ''SUMMER2024''
         (currentDateTime (shop warm_cache 1725062400))
   \<and> fst (resolveAffiliateLink (shop warm_cache 1725062400) ''SUMMER2024'')
       = Inr (Some summer_link)
   \<and> response (handlePromotionCouponRequest (shop warm_cache 1725062400) (summer_request []))
       \<noteq> Redirect ''/pricing''
   \<and> http_status (response (handlePromotionCouponRequest (shop warm_cache 1725062400)
                               (summer_request []))) = 200
   \<and> \<not> active_row_exists (database (shop_down empty_cache 1725062400)) ''SUMMER2024''
         (currentDateTime (shop_down empty_cache 1725062400))
   \<and> response (handlePromotionCouponRequest (shop_down empty_cache 1725062400)
                  (summer_request []))
       = JSONError 500 ''Database connection failed''"
  by (simp add: handlePromotionCouponRequest_def summer_request_def
        resolveAffiliateLink_def cacheRetrieval_def databaseFallback_def shop_def shop_down_def
        warm_cache_def
        empty_cache_def getWithTimeout_def awaitFirstResolved_def
        queryAffiliateLinkFromDatabase_def sendJSONError_def extractHTTPStatusCode_def
        extractErrorMessage_def plain_error_def
        live_value_def cacheKey_of_def toJSON_def shop_db_def summer_row_def
        summer_sale_def summer_link_def joined_def trackAndRender_def trackClick_def
        database_insert_def row_of_event_def new_ClickTrackingEvent_def renderTemplate_def
        page_engine_def country_of_def extractHeader_def lower_header_name with_entries_def
        active_row_exists_def Let_def)

text \<open>
  Claim C1, as amended. For every non-empty coupon code whose cache read gives no link
  (miss, read skipped, failed or late, text that does not parse) and whose repository
  read does not throw, the resolution is NotFound, and the response the 302 redirect to
  \<^verbatim>\<open>/pricing\<close>, exactly when the repository has no affiliate-link row with that
  coupon whose campaign has \<open>start_on < now\<close> and \<open>end_on > now\<close>, both strict. In
  particular, when \<open>now\<close> is \<open>start_on\<close> or \<open>end_on\<close> of every campaign joined to a row
  of the coupon, the resolution is NotFound.
\<close>

theorem repository_decides_when_cache_gives_nothing:
  assumes param: "pathParameters req ''coupon'' = Some coupon" and nonempty: "coupon \<noteq> []"
    and miss: "fst (cacheRetrieval (cacheClient w) (currentDateTime w) coupon) = None"
    and reads: "query_run (database w) = None"
  shows "(fst (resolveAffiliateLink w coupon) = Inr None
            \<longleftrightarrow> \<not> active_row_exists (database w) coupon (currentDateTime w))
         \<and> (response (handlePromotionCouponRequest w req) = Redirect ''/pricing''
            \<longleftrightarrow> \<not> active_row_exists (database w) coupon (currentDateTime w))
         \<and> ((\<forall>al \<in> set (affiliate_links (database w)). \<forall>c \<in> set (campaigns (database w)).
               row_coupon al = coupon \<and> row_campaign_id al = c_id c
               \<longrightarrow> currentDateTime w = c_start_on c \<or> currentDateTime w = c_end_on c)
            \<longrightarrow> fst (resolveAffiliateLink w coupon) = Inr None
                \<and> response (handlePromotionCouponRequest w req) = Redirect ''/pricing'')"
proof -
  let ?q = "queryAffiliateLinkFromDatabase (database w) (currentDateTime w) coupon"
  let ?active = "active_row_exists (database w) coupon (currentDateTime w)"
  note res = resolve_miss [OF miss]
  have found: "fst (resolveAffiliateLink w coupon) = ?q"
    by (simp add: res fallback_found)
  have r1: "fst (resolveAffiliateLink w coupon) = Inr None \<longleftrightarrow> \<not> ?active"
    by (simp add: found query_none [OF reads])
  have r2: "response (handlePromotionCouponRequest w req) = Redirect ''/pricing'' \<longleftrightarrow> \<not> ?active"
  proof (cases ?q)
    case (Inl e)
    with query_not_thrown [OF reads] show ?thesis by blast
  next
    case (Inr found_link)
    show ?thesis
    proof (cases found_link)
      case None
      with Inr have q: "?q = Inr None" by simp
      then have "resolveAffiliateLink w coupon
          = (Inr None, fst (snd (databaseFallback w coupon)),
             snd (cacheRetrieval (cacheClient w) (currentDateTime w) coupon)
             @ snd (snd (databaseFallback w coupon)))"
        using res by (simp add: fallback_found)
      from handle_not_found [OF param nonempty this] q show ?thesis
        by (simp add: query_none [OF reads, symmetric])
    next
      case (Some link)
      with Inr have q: "?q = Inr (Some link)" by simp
      then have eq: "resolveAffiliateLink w coupon
          = (Inr (Some link), fst (snd (databaseFallback w coupon)),
             snd (cacheRetrieval (cacheClient w) (currentDateTime w) coupon)
             @ snd (snd (databaseFallback w coupon)))"
        using res by (simp add: fallback_found)
      have "response (handlePromotionCouponRequest w req) \<noteq> Redirect ''/pricing''"
        by (simp add: handle_found [OF param nonempty eq query_some_id [OF q]]
              response_trackAndRender sendJSONError_def Let_def split: sum.splits)
      moreover have "?active"
        using q query_none [OF reads, of "currentDateTime w" coupon] by auto
      ultimately show ?thesis by simp
    qed
  qed
  have r3: "(\<forall>al \<in> set (affiliate_links (database w)). \<forall>c \<in> set (campaigns (database w)).
               row_coupon al = coupon \<and> row_campaign_id al = c_id c
               \<longrightarrow> currentDateTime w = c_start_on c \<or> currentDateTime w = c_end_on c)
            \<longrightarrow> \<not> ?active"
    unfolding active_row_exists_def by force
  from r1 r2 r3 show ?thesis by blast
qed

theorem repository_decides_witness:
  "pathParameters (summer_request []) ''coupon'' = Some ''SUMMER2024''
   \<and> fst (cacheRetrieval (cacheClient (shop empty_cache 1725062400))
            (currentDateTime (shop empty_cache 1725062400)) ''SUMMER2024'') = None
   \<and> query_run (database (shop empty_cache 1725062400)) = None
   \<and> \<not> active_row_exists (database (shop empty_cache 1725062400)) ''SUMMER2024''
         (currentDateTime (shop empty_cache 1725062400))
   \<and> response (handlePromotionCouponRequest (shop empty_cache 1725062400) (summer_request []))
       = Redirect ''/pricing''"
proof -
  let ?w = "shop empty_cache 1725062400"
  have param: "pathParameters (summer_request []) ''coupon'' = Some ''SUMMER2024''"
    by (simp add: summer_request_def)
  have nonempty: "''SUMMER2024'' \<noteq> []" by simp
  have miss: "fst (cacheRetrieval (cacheClient ?w) (currentDateTime ?w) ''SUMMER2024'') = None"
    by (simp add: cacheRetrieval_def shop_def empty_cache_def getWithTimeout_def
          awaitFirstResolved_def live_value_def)
  have reads: "query_run (database ?w) = None"
    by (simp add: shop_def shop_db_def)
  have inactive: "\<not> active_row_exists (database ?w) ''SUMMER2024'' (currentDateTime ?w)"
    by (simp add: active_row_exists_def shop_def shop_db_def summer_sale_def summer_row_def)
  from repository_decides_when_cache_gives_nothing [OF param nonempty miss reads] inactive
  have "response (handlePromotionCouponRequest ?w (summer_request [])) = Redirect ''/pricing''"
    by blast
  with param miss reads inactive show ?thesis by blast
qed

subsection \<open>Write-back after a miss\<close>

lemma fallback_written:
  assumes found: "queryAffiliateLinkFromDatabase (database w) (currentDateTime w) coupon
                    = Inr (Some link)"
    and conn: "isConnected (cacheClient w)"
    and performed: "set_run (cacheClient w) = Responds ms"
  shows "fst (snd (databaseFallback w coupon))
           = store_value (cacheClient w) (currentDateTime w) (cacheKey_of coupon) (toJSON link) 1800"
    and "CacheSet (cacheKey_of coupon) (toJSON link) 1800 \<in> set (snd (snd (databaseFallback w coupon)))"
  using assms
  by (simp_all add: databaseFallback_def setWithTimeout_def awaitFirstResolved_def
        entries_after_set_def Let_def)

text \<open>
  Counterexample to claim C3 as written. The claim fails in three ways. With a
  disconnected cache client the resolution is logged as a cache miss, the repository read succeeds,
  and step 5 is skipped by its guard: nothing is written. With a connected client
  whose write breaks, the failure is caught and logged, nothing is stored, and the
  resolution that follows asks the repository again. With a client that is connected
  but not healthy the record is written, since the write is guarded by the connection
  only, and the resolution that follows skips the read and asks the repository again.
\<close>

theorem write_back_counterexample:
  "fst (cacheRetrieval offline_cache 1720000000 ''SUMMER2024'') = None
   \<and> fst (resolveAffiliateLink (shop offline_cache 1720000000) ''SUMMER2024'')
       = Inr (Some summer_link)
   \<and> CacheSet (cacheKey_of ''SUMMER2024'') (toJSON summer_link) 1800
       \<notin> set (snd (snd (resolveAffiliateLink (shop offline_cache 1720000000) ''SUMMER2024'')))
   \<and> fst (snd (resolveAffiliateLink (shop offline_cache 1720000000) ''SUMMER2024''))
        (cacheKey_of ''SUMMER2024'') = None
   \<and> fst (cacheRetrieval readonly_cache 1720000000 ''SUMMER2024'') = None
   \<and> CacheGet (cacheKey_of ''SUMMER2024'')
       \<in> set (snd (cacheRetrieval readonly_cache 1720000000 ''SUMMER2024''))
   \<and> fst (resolveAffiliateLink (shop readonly_cache 1720000000) ''SUMMER2024'')
       = Inr (Some summer_link)
   \<and> fst (snd (resolveAffiliateLink (shop readonly_cache 1720000000) ''SUMMER2024''))
        (cacheKey_of ''SUMMER2024'') = None
   \<and> DbQuery ''SUMMER2024'' 1720000001
       \<in> set (effects (handlePromotionCouponRequest
            (at_instant (world_after (handlePromotionCouponRequest
                                        (shop readonly_cache 1720000000) (summer_request [])))
                        1720000001)
            (summer_request [])))
   \<and> fst (cacheRetrieval unhealthy_cache 1720000000 ''SUMMER2024'') = None
   \<and> fst (resolveAffiliateLink (shop unhealthy_cache 1720000000) ''SUMMER2024'')
       = Inr (Some summer_link)
   \<and> fst (snd (resolveAffiliateLink (shop unhealthy_cache 1720000000) ''SUMMER2024''))
        (cacheKey_of ''SUMMER2024'') = Some (toJSON summer_link, 1720001800)
   \<and> DbQuery ''SUMMER2024'' 1720000001
       \<in> set (effects (handlePromotionCouponRequest
            (at_instant (world_after (handlePromotionCouponRequest
                                        (shop unhealthy_cache 1720000000) (summer_request [])))
                        1720000001)
            (summer_request [])))"
  by (simp add: handlePromotionCouponRequest_def summer_request_def at_instant_def
        resolveAffiliateLink_def cacheRetrieval_def databaseFallback_def shop_def
        offline_cache_def readonly_cache_def unhealthy_cache_def
        empty_cache_def getWithTimeout_def setWithTimeout_def awaitFirstResolved_def
        live_value_def entries_after_set_def store_value_def cacheKey_of_def toJSON_def
        queryAffiliateLinkFromDatabase_def query_rows_def shop_db_def summer_row_def
        summer_sale_def summer_link_def joined_def trackAndRender_def trackClick_def
        database_insert_def row_of_event_def new_ClickTrackingEvent_def renderTemplate_def
        page_engine_def country_of_def extractHeader_def lower_header_name with_entries_def
        Let_def)

lemma timeout_message:
  "message_of (TimeoutError 1000) = ''Operation timed out after 1000ms''"
proof -
  have "show_nat 1000 = ''1000''" by code_simp
  then show ?thesis by (simp add: message_of_def TimeoutError_def plain_error_def)
qed

lemma fallback_after_found:
  assumes found: "queryAffiliateLinkFromDatabase (database w) (currentDateTime w) coupon
                    = Inr (Some link)"
  shows "databaseFallback w coupon =
           (let cc = cacheClient w; t = currentDateTime w;
                asked = [LogInfo (''Cache miss for coupon: '' @ coupon), DbQuery coupon t]
            in if isConnected cc
               then (Inr (Some link),
                     entries_after_set cc t (''affiliate:link:'' @ coupon) (toJSON link) 1800,
                     asked @ [CacheSet (''affiliate:link:'' @ coupon) (toJSON link) 1800,
                              (case fst (setWithTimeout cc t (''affiliate:link:'' @ coupon)
                                           (toJSON link) 1800 1000) of
                                 Inr u \<Rightarrow> LogInfo (''Cached affiliate link: '' @ coupon)
                               | Inl cacheError \<Rightarrow>
                                   LogWarning (''Cache write failed: ''
                                               @ message_of cacheError))])
               else (Inr (Some link), entries cc, asked))"
  using found
  by (simp add: databaseFallback_def cacheKey_of_def setWithTimeout_def Let_def
        split: sum.splits option.splits)

text \<open>
  Claim C3, as amended. For every coupon code whose resolution is a cache miss followed
  by a successful repository read, the resolver returns the record, and:
  \<^item> when the cache client is connected, it issues the write of the record under the
    key \<^verbatim>\<open>affiliate:link:{coupon}\<close> with a time-to-live of 1800 seconds, and it
    issues no other cache write;
  \<^item> when the cache client is disconnected, it issues no cache write and leaves the
    entries as they were;
  \<^item> a write that fails (it breaks, or it exceeds the budget of 1000 ms) is caught
    and logged as the warning \<^verbatim>\<open>Cache write failed: ...\<close>, and swallowed: the
    record is still returned and the response of the handler is the one the template
    decides; a write that breaks leaves the entries as they were;
  \<^item> when the store performs the write, the entry under the key is the record,
    expiring 1800 seconds after the resolution (the helper
    \<^verbatim>\<open>cacheAffiliateLink\<close> stores the same entry), and a following resolution of
    the same coupon before that instant, on the entries the first one left, with the
    cache connected and healthy and its read answered within the budget, is a cache
    hit that returns the same record without a repository query.
\<close>

theorem miss_populates_cache_for_next_resolution:
  assumes miss: "fst (cacheRetrieval (cacheClient w) (currentDateTime w) coupon) = None"
    and found: "queryAffiliateLinkFromDatabase (database w) (currentDateTime w) coupon
                  = Inr (Some link)"
  shows "fst (resolveAffiliateLink w coupon) = Inr (Some link)
         \<and> (isConnected (cacheClient w)
              \<longrightarrow> CacheSet (''affiliate:link:'' @ coupon) (toJSON link) 1800
                    \<in> set (snd (snd (resolveAffiliateLink w coupon))))
         \<and> (\<forall>k v ttl. CacheSet k v ttl \<in> set (snd (snd (resolveAffiliateLink w coupon)))
               \<longrightarrow> isConnected (cacheClient w) \<and> k = ''affiliate:link:'' @ coupon
                   \<and> v = toJSON link \<and> ttl = 1800)
         \<and> (\<not> isConnected (cacheClient w)
              \<longrightarrow> (\<forall>k v ttl. CacheSet k v ttl \<notin> set (snd (snd (resolveAffiliateLink w coupon))))
                  \<and> fst (snd (resolveAffiliateLink w coupon)) = entries (cacheClient w))
         \<and> (\<forall>cacheError.
               isConnected (cacheClient w)
               \<and> fst (setWithTimeout (cacheClient w) (currentDateTime w)
                         (''affiliate:link:'' @ coupon) (toJSON link) 1800 1000) = Inl cacheError
               \<longrightarrow> LogWarning (''Cache write failed: '' @ message_of cacheError)
                     \<in> set (snd (snd (resolveAffiliateLink w coupon))))
         \<and> (\<forall>ms msg.
               isConnected (cacheClient w) \<and> set_run (cacheClient w) = Breaks ms msg
               \<longrightarrow> LogWarning (''Cache write failed: ''
                                 @ (if ms \<le> 1000 then msg
                                    else ''Operation timed out after 1000ms''))
                     \<in> set (snd (snd (resolveAffiliateLink w coupon)))
                   \<and> fst (snd (resolveAffiliateLink w coupon)) = entries (cacheClient w))
         \<and> (\<forall>(req :: request).
               pathParameters req ''coupon'' = Some coupon \<and> coupon \<noteq> []
               \<longrightarrow> response (handlePromotionCouponRequest w req) =
                     (case templateEngine w ''views/coupon_redirect.ejs''
                             \<lparr>td_data = link, td_country = country_of req\<rparr> of
                        Inr html \<Rightarrow> Html 200 html
                      | Inl error \<Rightarrow> fst (sendJSONError error)))
         \<and> (\<forall>ms.
               isConnected (cacheClient w) \<and> set_run (cacheClient w) = Responds ms
               \<longrightarrow> fst (snd (resolveAffiliateLink w coupon)) (''affiliate:link:'' @ coupon)
                     = Some (toJSON link, currentDateTime w + 1800)
                   \<and> fst (snd (cacheAffiliateLink (cacheClient w) (currentDateTime w) coupon
                                  link 1800))
                       (''affiliate:link:'' @ coupon)
                     = Some (toJSON link, currentDateTime w + 1800)
                   \<and> (\<forall>(w' :: world) ms'.
                         entries (cacheClient w') = fst (snd (resolveAffiliateLink w coupon))
                         \<and> isConnected (cacheClient w') \<and> isHealthy (cacheClient w')
                         \<and> get_run (cacheClient w') = Responds ms' \<and> ms' \<le> 1000
                         \<and> currentDateTime w' < currentDateTime w + 1800
                         \<longrightarrow> fst (resolveAffiliateLink w' coupon) = Inr (Some link)
                             \<and> CacheGet (''affiliate:link:'' @ coupon)
                                 \<in> set (snd (snd (resolveAffiliateLink w' coupon)))
                             \<and> (\<forall>c t. DbQuery c t
                                   \<notin> set (snd (snd (resolveAffiliateLink w' coupon))))))"
proof -
  let ?cc = "cacheClient w"
  let ?t = "currentDateTime w"
  let ?key = "''affiliate:link:'' @ coupon"
  let ?r = "resolveAffiliateLink w coupon"
  note res = resolve_miss [OF miss]
  note fb = fallback_after_found [OF found]
  have quiet: "CacheSet k v ttl \<notin> set (snd (cacheRetrieval ?cc ?t coupon))" for k v ttl
    by (simp add: cacheRetrieval_def Let_def split: sum.splits option.splits)
  have resolved: "fst ?r = Inr (Some link)"
    by (simp add: res fallback_found found)
  have issued: "isConnected ?cc \<longrightarrow> CacheSet ?key (toJSON link) 1800 \<in> set (snd (snd ?r))"
    by (simp add: res fb Let_def)
  have only: "\<forall>k v ttl. CacheSet k v ttl \<in> set (snd (snd ?r))
               \<longrightarrow> isConnected ?cc \<and> k = ?key \<and> v = toJSON link \<and> ttl = 1800"
    using quiet by (auto simp add: res fb Let_def split: if_splits sum.splits)
  have offline: "\<not> isConnected ?cc
              \<longrightarrow> (\<forall>k v ttl. CacheSet k v ttl \<notin> set (snd (snd ?r)))
                  \<and> fst (snd ?r) = entries ?cc"
    using only by (auto simp add: res fb Let_def)
  have logged: "\<forall>cacheError.
               isConnected ?cc
               \<and> fst (setWithTimeout ?cc ?t ?key (toJSON link) 1800 1000) = Inl cacheError
               \<longrightarrow> LogWarning (''Cache write failed: '' @ message_of cacheError)
                     \<in> set (snd (snd ?r))"
    by (simp add: res fb Let_def)
  have broken: "\<forall>ms msg.
               isConnected ?cc \<and> set_run ?cc = Breaks ms msg
               \<longrightarrow> LogWarning (''Cache write failed: ''
                                 @ (if ms \<le> 1000 then msg
                                    else ''Operation timed out after 1000ms''))
                     \<in> set (snd (snd ?r))
                   \<and> fst (snd ?r) = entries ?cc"
    using timeout_message
    by (simp add: res fb Let_def setWithTimeout_def awaitFirstResolved_def
          entries_after_set_def message_of_def plain_error_def)
  have answer: "\<forall>(req :: request).
               pathParameters req ''coupon'' = Some coupon \<and> coupon \<noteq> []
               \<longrightarrow> response (handlePromotionCouponRequest w req) =
                     (case templateEngine w ''views/coupon_redirect.ejs''
                             \<lparr>td_data = link, td_country = country_of req\<rparr> of
                        Inr html \<Rightarrow> Html 200 html
                      | Inl error \<Rightarrow> fst (sendJSONError error))"
  proof (intro allI impI)
    fix req :: request
    assume a: "pathParameters req ''coupon'' = Some coupon \<and> coupon \<noteq> []"
    obtain stored fx where r: "?r = (Inr (Some link), stored, fx)"
      using resolved by (cases ?r) auto
    from a have "handlePromotionCouponRequest w req
                   = trackAndRender (with_entries w stored) req link fx"
      by (intro handle_found [OF _ _ r query_some_id [OF found]]) simp_all
    then show "response (handlePromotionCouponRequest w req) =
                     (case templateEngine w ''views/coupon_redirect.ejs''
                             \<lparr>td_data = link, td_country = country_of req\<rparr> of
                        Inr html \<Rightarrow> Html 200 html
                      | Inl error \<Rightarrow> fst (sendJSONError error))"
      by (simp add: response_trackAndRender)
  qed
  have performed: "\<forall>ms.
               isConnected ?cc \<and> set_run ?cc = Responds ms
               \<longrightarrow> fst (snd ?r) ?key = Some (toJSON link, ?t + 1800)
                   \<and> fst (snd (cacheAffiliateLink ?cc ?t coupon link 1800)) ?key
                     = Some (toJSON link, ?t + 1800)
                   \<and> (\<forall>(w' :: world) ms'.
                         entries (cacheClient w') = fst (snd ?r)
                         \<and> isConnected (cacheClient w') \<and> isHealthy (cacheClient w')
                         \<and> get_run (cacheClient w') = Responds ms' \<and> ms' \<le> 1000
                         \<and> currentDateTime w' < ?t + 1800
                         \<longrightarrow> fst (resolveAffiliateLink w' coupon) = Inr (Some link)
                             \<and> CacheGet ?key \<in> set (snd (snd (resolveAffiliateLink w' coupon)))
                             \<and> (\<forall>c t. DbQuery c t
                                   \<notin> set (snd (snd (resolveAffiliateLink w' coupon)))))"
  proof (intro allI impI)
    fix ms
    assume a: "isConnected ?cc \<and> set_run ?cc = Responds ms"
    then have stored: "fst (snd ?r) ?key = Some (toJSON link, ?t + 1800)"
      by (simp add: res fb Let_def entries_after_set_def store_value_def)
    from a have helper: "fst (snd (cacheAffiliateLink ?cc ?t coupon link 1800)) ?key
                     = Some (toJSON link, ?t + 1800)"
      by (simp add: cacheAffiliateLink_def entries_after_set_def store_value_def
            cacheKey_of_def Let_def)
    have next_hit: "fst (resolveAffiliateLink w' coupon) = Inr (Some link)
                  \<and> CacheGet ?key \<in> set (snd (snd (resolveAffiliateLink w' coupon)))
                  \<and> (\<forall>c t. DbQuery c t \<notin> set (snd (snd (resolveAffiliateLink w' coupon))))"
      if b: "entries (cacheClient w') = fst (snd ?r)
             \<and> isConnected (cacheClient w') \<and> isHealthy (cacheClient w')
             \<and> get_run (cacheClient w') = Responds ms' \<and> ms' \<le> 1000
             \<and> currentDateTime w' < ?t + 1800"
      for w' :: world and ms'
    proof -
      from b stored
      have read: "getWithTimeout (cacheClient w') (currentDateTime w') (cacheKey_of coupon) 1000
                    = Inr (Some (Snapshot link))"
        by (simp add: getWithTimeout_def awaitFirstResolved_def live_value_def toJSON_def
              cacheKey_of_def)
      from b have "isConnected (cacheClient w')" "isHealthy (cacheClient w')" by simp_all
      from resolve_hit [OF this read] show ?thesis by (simp add: cacheKey_of_def)
    qed
    from stored helper next_hit
    show "fst (snd ?r) ?key = Some (toJSON link, ?t + 1800)
                   \<and> fst (snd (cacheAffiliateLink ?cc ?t coupon link 1800)) ?key
                     = Some (toJSON link, ?t + 1800)
                   \<and> (\<forall>(w' :: world) ms'.
                         entries (cacheClient w') = fst (snd ?r)
                         \<and> isConnected (cacheClient w') \<and> isHealthy (cacheClient w')
                         \<and> get_run (cacheClient w') = Responds ms' \<and> ms' \<le> 1000
                         \<and> currentDateTime w' < ?t + 1800
                         \<longrightarrow> fst (resolveAffiliateLink w' coupon) = Inr (Some link)
                             \<and> CacheGet ?key \<in> set (snd (snd (resolveAffiliateLink w' coupon)))
                             \<and> (\<forall>c t. DbQuery c t
                                   \<notin> set (snd (snd (resolveAffiliateLink w' coupon)))))"
      by blast
  qed
  from resolved issued only offline logged broken answer performed show ?thesis
    by (intro conjI)
qed


theorem miss_populates_cache_witness:
  "fst (cacheRetrieval (cacheClient (shop empty_cache 1725062000))
          (currentDateTime (shop empty_cache 1725062000)) ''SUMMER2024'') = None
   \<and> queryAffiliateLinkFromDatabase (database (shop empty_cache 1725062000))
        (currentDateTime (shop empty_cache 1725062000)) ''SUMMER2024'' = Inr (Some summer_link)
   \<and> isConnected (cacheClient (shop empty_cache 1725062000))
   \<and> set_run (cacheClient (shop empty_cache 1725062000)) = Responds 3
   \<and> CacheSet ''affiliate:link:SUMMER2024'' (toJSON summer_link) 1800
       \<in> set (snd (snd (resolveAffiliateLink (shop empty_cache 1725062000) ''SUMMER2024'')))
   \<and> entries (cacheClient (shop warm_cache 1725062001))
       = fst (snd (resolveAffiliateLink (shop empty_cache 1725062000) ''SUMMER2024''))
   \<and> isConnected (cacheClient (shop warm_cache 1725062001))
   \<and> isHealthy (cacheClient (shop warm_cache 1725062001))
   \<and> get_run (cacheClient (shop warm_cache 1725062001)) = Responds 3
   \<and> (3::nat) \<le> 1000
   \<and> currentDateTime (shop warm_cache 1725062001)
       < currentDateTime (shop empty_cache 1725062000) + 1800
   \<and> fst (resolveAffiliateLink (shop warm_cache 1725062001) ''SUMMER2024'')
       = Inr (Some summer_link)
   \<and> (\<forall>c t. DbQuery c t
         \<notin> set (snd (snd (resolveAffiliateLink (shop warm_cache 1725062001) ''SUMMER2024''))))
   \<and> fst (cacheRetrieval (cacheClient (shop readonly_cache 1720000000))
          (currentDateTime (shop readonly_cache 1720000000)) ''SUMMER2024'') = None
   \<and> isConnected (cacheClient (shop readonly_cache 1720000000))
   \<and> set_run (cacheClient (shop readonly_cache 1720000000)) = Breaks 2 ''READONLY''
   \<and> LogWarning ''Cache write failed: READONLY''
       \<in> set (snd (snd (resolveAffiliateLink (shop readonly_cache 1720000000) ''SUMMER2024'')))
   \<and> fst (resolveAffiliateLink (shop readonly_cache 1720000000) ''SUMMER2024'')
       = Inr (Some summer_link)
   \<and> fst (cacheRetrieval (cacheClient (shop offline_cache 1720000000))
          (currentDateTime (shop offline_cache 1720000000)) ''SUMMER2024'') = None
   \<and> \<not> isConnected (cacheClient (shop offline_cache 1720000000))
   \<and> (\<forall>k v ttl. CacheSet k v ttl
         \<notin> set (snd (snd (resolveAffiliateLink (shop offline_cache 1720000000) ''SUMMER2024''))))"
proof -
  let ?w = "shop empty_cache 1725062000"
  let ?w' = "shop warm_cache 1725062001"
  let ?ro = "shop readonly_cache 1720000000"
  let ?off = "shop offline_cache 1720000000"
  have miss: "fst (cacheRetrieval (cacheClient ?w) (currentDateTime ?w) ''SUMMER2024'') = None"
    and miss_ro:
      "fst (cacheRetrieval (cacheClient ?ro) (currentDateTime ?ro) ''SUMMER2024'') = None"
    and miss_off:
      "fst (cacheRetrieval (cacheClient ?off) (currentDateTime ?off) ''SUMMER2024'') = None"
    by (simp_all add: cacheRetrieval_def shop_def empty_cache_def readonly_cache_def
          offline_cache_def getWithTimeout_def awaitFirstResolved_def live_value_def)
  have found: "queryAffiliateLinkFromDatabase (database ?w) (currentDateTime ?w) ''SUMMER2024''
                 = Inr (Some summer_link)"
    and found_ro:
      "queryAffiliateLinkFromDatabase (database ?ro) (currentDateTime ?ro) ''SUMMER2024''
         = Inr (Some summer_link)"
    and found_off:
      "queryAffiliateLinkFromDatabase (database ?off) (currentDateTime ?off) ''SUMMER2024''
         = Inr (Some summer_link)"
    by (simp_all add: queryAffiliateLinkFromDatabase_def query_rows_def shop_def shop_db_def
          summer_row_def summer_sale_def summer_link_def)
  have conn: "isConnected (cacheClient ?w)"
    and performed: "set_run (cacheClient ?w) = Responds 3"
    and conn_ro: "isConnected (cacheClient ?ro)"
    and breaks: "set_run (cacheClient ?ro) = Breaks 2 ''READONLY''"
    and off: "\<not> isConnected (cacheClient ?off)"
    by (simp_all add: shop_def empty_cache_def readonly_cache_def offline_cache_def)
  note first = miss_populates_cache_for_next_resolution [OF miss found]
  note second = miss_populates_cache_for_next_resolution [OF miss_ro found_ro]
  note third = miss_populates_cache_for_next_resolution [OF miss_off found_off]
  from first conn
  have issued: "CacheSet (''affiliate:link:'' @ ''SUMMER2024'') (toJSON summer_link) 1800
                  \<in> set (snd (snd (resolveAffiliateLink ?w ''SUMMER2024'')))"
    by blast
  from first conn performed
  have stored: "fst (snd (resolveAffiliateLink ?w ''SUMMER2024''))
                  (''affiliate:link:'' @ ''SUMMER2024'')
                = Some (toJSON summer_link, currentDateTime ?w + 1800)"
    by blast
  from first have only: "\<forall>k v ttl.
      CacheSet k v ttl \<in> set (snd (snd (resolveAffiliateLink ?w ''SUMMER2024'')))
      \<longrightarrow> k = ''affiliate:link:'' @ ''SUMMER2024''"
    by blast
  have "fst (snd (resolveAffiliateLink ?w ''SUMMER2024''))
          = fst (snd (databaseFallback ?w ''SUMMER2024''))"
    by (simp only: resolve_miss [OF miss] fst_conv snd_conv)
  also have "\<dots> = store_value (cacheClient ?w) (currentDateTime ?w)
                      (cacheKey_of ''SUMMER2024'') (toJSON summer_link) 1800"
    by (rule fallback_written(1) [OF found conn performed])
  also have "\<dots> = entries (cacheClient ?w')"
    by (simp add: store_value_def shop_def warm_cache_def empty_cache_def)
  finally have kept:
    "entries (cacheClient ?w') = fst (snd (resolveAffiliateLink ?w ''SUMMER2024''))"
    by simp
  have ready: "isConnected (cacheClient ?w')" "isHealthy (cacheClient ?w')"
    and answered: "get_run (cacheClient ?w') = Responds 3" "(3::nat) \<le> 1000"
    and within: "currentDateTime ?w' < currentDateTime ?w + 1800"
    by (simp_all add: shop_def warm_cache_def empty_cache_def)
  from first conn performed kept ready answered within
  have hit: "fst (resolveAffiliateLink ?w' ''SUMMER2024'') = Inr (Some summer_link)
             \<and> (\<forall>c t. DbQuery c t
                   \<notin> set (snd (snd (resolveAffiliateLink ?w' ''SUMMER2024''))))"
    by blast
  from second conn_ro breaks
  have "LogWarning (''Cache write failed: ''
                    @ (if (2::nat) \<le> 1000 then ''READONLY''
                       else ''Operation timed out after 1000ms''))
          \<in> set (snd (snd (resolveAffiliateLink ?ro ''SUMMER2024'')))"
    by blast
  then have logged: "LogWarning ''Cache write failed: READONLY''
          \<in> set (snd (snd (resolveAffiliateLink ?ro ''SUMMER2024'')))"
    by simp
  from second have swallowed:
    "fst (resolveAffiliateLink ?ro ''SUMMER2024'') = Inr (Some summer_link)"
    by blast
  from third off
  have unwritten: "\<forall>k v ttl. CacheSet k v ttl
         \<notin> set (snd (snd (resolveAffiliateLink ?off ''SUMMER2024'')))"
    by blast
  from issued have issued': "CacheSet ''affiliate:link:SUMMER2024'' (toJSON summer_link) 1800
       \<in> set (snd (snd (resolveAffiliateLink ?w ''SUMMER2024'')))"
    by simp
  from miss found conn performed issued' kept ready answered within hit
       miss_ro conn_ro breaks logged swallowed miss_off off unwritten
  show ?thesis by (intro conjI) blast+
qed

subsection \<open>A cache read that gives nothing\<close>

lemma degraded_retrieval:
  assumes "read_degraded cc"
  shows "fst (cacheRetrieval cc t coupon) = None"
    and "fst (getCachedAffiliateLink cc t coupon) = None"
  using assms
  by (auto simp add: read_degraded_def cacheRetrieval_def getCachedAffiliateLink_def
        getWithTimeout_def awaitFirstResolved_def Let_def split: op_run.splits)

lemma plain_miss_retrieval:
  "fst (cacheRetrieval (cacheClient (plain_miss w coupon))
          (currentDateTime (plain_miss w coupon)) coupon) = None"
  by (simp add: plain_miss_def cacheRetrieval_def getWithTimeout_def awaitFirstResolved_def
        live_value_def)

lemma plain_miss_reads:
  "CacheGet (cacheKey_of coupon)
     \<in> set (snd (cacheRetrieval (cacheClient (plain_miss w coupon))
                   (currentDateTime (plain_miss w coupon)) coupon))"
  by (simp add: plain_miss_def cacheRetrieval_def getWithTimeout_def awaitFirstResolved_def
        live_value_def)

lemma fallback_asks:
  "DbQuery coupon (currentDateTime w) \<in> set (snd (snd (databaseFallback w coupon)))"
  by (simp add: databaseFallback_def Let_def split: sum.splits option.splits prod.splits)

lemma effects_trackAndRender_prefix:
  "set fx \<subseteq> set (effects (trackAndRender w req link fx))"
  by (auto simp add: trackAndRender_def Let_def split: prod.splits sum.splits)

text \<open>What the handler answers when step 3 left \<^verbatim>\<open>affiliateLink\<close> NULL: the
  repository and the template engine decide, and only they can make it an error.\<close>

lemma response_on_miss:
  assumes param: "pathParameters req ''coupon'' = Some coupon" and nonempty: "coupon \<noteq> []"
    and miss: "fst (cacheRetrieval (cacheClient w) (currentDateTime w) coupon) = None"
  shows "response (handlePromotionCouponRequest w req) =
           (case queryAffiliateLinkFromDatabase (database w) (currentDateTime w) coupon of
              Inl error \<Rightarrow> fst (sendJSONError error)
            | Inr None \<Rightarrow> Redirect ''/pricing''
            | Inr (Some link) \<Rightarrow>
                (case templateEngine w ''views/coupon_redirect.ejs''
                        \<lparr>td_data = link, td_country = country_of req\<rparr> of
                   Inr html \<Rightarrow> Html 200 html
                 | Inl error \<Rightarrow> fst (sendJSONError error)))"
    and "DbQuery coupon (currentDateTime w) \<in> set (effects (handlePromotionCouponRequest w req))"
proof -
  let ?q = "queryAffiliateLinkFromDatabase (database w) (currentDateTime w) coupon"
  let ?fx = "snd (cacheRetrieval (cacheClient w) (currentDateTime w) coupon)
             @ snd (snd (databaseFallback w coupon))"
  note res = resolve_miss [OF miss]
  have asked: "DbQuery coupon (currentDateTime w) \<in> set ?fx"
    using fallback_asks by simp
  have "response (handlePromotionCouponRequest w req) =
           (case ?q of
              Inl error \<Rightarrow> fst (sendJSONError error)
            | Inr None \<Rightarrow> Redirect ''/pricing''
            | Inr (Some link) \<Rightarrow>
                (case templateEngine w ''views/coupon_redirect.ejs''
                        \<lparr>td_data = link, td_country = country_of req\<rparr> of
                   Inr html \<Rightarrow> Html 200 html
                 | Inl error \<Rightarrow> fst (sendJSONError error)))
        \<and> DbQuery coupon (currentDateTime w)
             \<in> set (effects (handlePromotionCouponRequest w req))"
  proof (cases ?q)
    case (Inl e)
    then have "resolveAffiliateLink w coupon = (Inl e, fst (snd (databaseFallback w coupon)), ?fx)"
      using res by (simp add: fallback_found)
    from handle_thrown [OF param nonempty this] Inl asked show ?thesis by auto
  next
    case (Inr found_link)
    show ?thesis
    proof (cases found_link)
      case None
      with Inr have q: "?q = Inr None" by simp
      then have "resolveAffiliateLink w coupon
          = (Inr None, fst (snd (databaseFallback w coupon)), ?fx)"
        using res by (simp add: fallback_found)
      from handle_not_found [OF param nonempty this] q asked show ?thesis by auto
    next
      case (Some link)
      with Inr have q: "?q = Inr (Some link)" by simp
      then have eq: "resolveAffiliateLink w coupon
          = (Inr (Some link), fst (snd (databaseFallback w coupon)), ?fx)"
        using res by (simp add: fallback_found)
      note h = handle_found [OF param nonempty eq query_some_id [OF q]]
      from asked effects_trackAndRender_prefix
      have "DbQuery coupon (currentDateTime w)
              \<in> set (effects (trackAndRender (with_entries w (fst (snd (databaseFallback w coupon))))
                                req link ?fx))"
        by blast
      with q show ?thesis by (simp add: h response_trackAndRender)
    qed
  qed
  then show "response (handlePromotionCouponRequest w req) =
           (case ?q of
              Inl error \<Rightarrow> fst (sendJSONError error)
            | Inr None \<Rightarrow> Redirect ''/pricing''
            | Inr (Some link) \<Rightarrow>
                (case templateEngine w ''views/coupon_redirect.ejs''
                        \<lparr>td_data = link, td_country = country_of req\<rparr> of
                   Inr html \<Rightarrow> Html 200 html
                 | Inl error \<Rightarrow> fst (sendJSONError error)))"
    and "DbQuery coupon (currentDateTime w) \<in> set (effects (handlePromotionCouponRequest w req))"
    by simp_all
qed

text \<open>
  Claim C4. When the cache read exceeds its budget of 1000 ms, or breaks, or the cache
  client is disconnected, the controller's cache step and the helper
  \<^verbatim>\<open>getCachedAffiliateLink\<close> both give NULL, and the handler answers exactly what
  it answers on a plain cache miss: the repository is queried, the response is the
  one that the repository (and the template engine) decide, so no error of the cache
  reaches the caller, and a coupon with an active campaign resolves to its link and
  to the 200 page whenever the template renders.
\<close>

theorem degraded_cache_read_behaves_as_miss:
  assumes param: "pathParameters req ''coupon'' = Some coupon" and nonempty: "coupon \<noteq> []"
    and degraded: "read_degraded (cacheClient w)"
  shows "fst (cacheRetrieval (cacheClient w) (currentDateTime w) coupon) = None
         \<and> fst (getCachedAffiliateLink (cacheClient w) (currentDateTime w) coupon) = None
         \<and> response (handlePromotionCouponRequest w req)
             = response (handlePromotionCouponRequest (plain_miss w coupon) req)
         \<and> fst (resolveAffiliateLink w coupon) = fst (resolveAffiliateLink (plain_miss w coupon) coupon)
         \<and> DbQuery coupon (currentDateTime w) \<in> set (effects (handlePromotionCouponRequest w req))
         \<and> response (handlePromotionCouponRequest w req) =
             (case queryAffiliateLinkFromDatabase (database w) (currentDateTime w) coupon of
                Inl error \<Rightarrow> fst (sendJSONError error)
              | Inr None \<Rightarrow> Redirect ''/pricing''
              | Inr (Some link) \<Rightarrow>
                  (case templateEngine w ''views/coupon_redirect.ejs''
                          \<lparr>td_data = link, td_country = country_of req\<rparr> of
                     Inr html \<Rightarrow> Html 200 html
                   | Inl error \<Rightarrow> fst (sendJSONError error)))
         \<and> (active_row_exists (database w) coupon (currentDateTime w)
              \<and> query_run (database w) = None
            \<longrightarrow> (\<exists>link. fst (resolveAffiliateLink w coupon) = Inr (Some link)
                    \<and> al_id link \<noteq> None
                    \<and> (\<forall>html. templateEngine w ''views/coupon_redirect.ejs''
                                 \<lparr>td_data = link, td_country = country_of req\<rparr> = Inr html
                          \<longrightarrow> response (handlePromotionCouponRequest w req) = Html 200 html)))"
proof -
  let ?q = "queryAffiliateLinkFromDatabase (database w) (currentDateTime w) coupon"
  note miss = degraded_retrieval [OF degraded, of "currentDateTime w" coupon]
  note here = response_on_miss [OF param nonempty miss(1)]
  note there = response_on_miss [OF param nonempty plain_miss_retrieval [of w coupon]]
  have same_world: "database (plain_miss w coupon) = database w"
    "currentDateTime (plain_miss w coupon) = currentDateTime w"
    "templateEngine (plain_miss w coupon) = templateEngine w"
    by (simp_all add: plain_miss_def)
  have same_response: "response (handlePromotionCouponRequest w req)
             = response (handlePromotionCouponRequest (plain_miss w coupon) req)"
    by (simp only: here(1) there(1) same_world)
  have found: "fst (resolveAffiliateLink w coupon) = ?q"
    by (simp add: resolve_miss [OF miss(1)] fallback_found)
  have found': "fst (resolveAffiliateLink (plain_miss w coupon) coupon) = ?q"
    by (simp add: resolve_miss [OF plain_miss_retrieval] fallback_found same_world)
  have active: "active_row_exists (database w) coupon (currentDateTime w)
              \<and> query_run (database w) = None
            \<longrightarrow> (\<exists>link. fst (resolveAffiliateLink w coupon) = Inr (Some link)
                    \<and> al_id link \<noteq> None
                    \<and> (\<forall>html. templateEngine w ''views/coupon_redirect.ejs''
                                 \<lparr>td_data = link, td_country = country_of req\<rparr> = Inr html
                          \<longrightarrow> response (handlePromotionCouponRequest w req) = Html 200 html))"
  proof
    assume a: "active_row_exists (database w) coupon (currentDateTime w)
               \<and> query_run (database w) = None"
    then have "?q \<noteq> Inr None" and "\<And>e. ?q \<noteq> Inl e"
      using query_none [of "database w" "currentDateTime w" coupon] query_not_thrown
      by blast+
    then obtain link where q: "?q = Inr (Some link)"
      by (cases ?q) auto
    have "\<forall>html. templateEngine w ''views/coupon_redirect.ejs''
                    \<lparr>td_data = link, td_country = country_of req\<rparr> = Inr html
             \<longrightarrow> response (handlePromotionCouponRequest w req) = Html 200 html"
      by (simp add: here(1) q)
    with q found query_some_id [OF q]
    show "\<exists>link. fst (resolveAffiliateLink w coupon) = Inr (Some link)
                    \<and> al_id link \<noteq> None
                    \<and> (\<forall>html. templateEngine w ''views/coupon_redirect.ejs''
                                 \<lparr>td_data = link, td_country = country_of req\<rparr> = Inr html
                          \<longrightarrow> response (handlePromotionCouponRequest w req) = Html 200 html)"
      by auto
  qed
  from miss same_response found found' here active show ?thesis by simp
qed

theorem degraded_cache_read_witness:
  "pathParameters (summer_request []) ''coupon'' = Some ''SUMMER2024''
   \<and> read_degraded (cacheClient (shop slow_cache 1720000000))
   \<and> get_run (cacheClient (shop slow_cache 1720000000)) = Responds 1500
   \<and> live_value (cacheClient (shop slow_cache 1720000000)) 1720000000
        (cacheKey_of ''SUMMER2024'') = Some (toJSON summer_link)
   \<and> fst (cacheRetrieval (cacheClient (shop slow_cache 1720000000))
            (currentDateTime (shop slow_cache 1720000000)) ''SUMMER2024'') = None
   \<and> DbQuery ''SUMMER2024'' (currentDateTime (shop slow_cache 1720000000))
       \<in> set (effects (handlePromotionCouponRequest (shop slow_cache 1720000000)
                         (summer_request [])))
   \<and> response (handlePromotionCouponRequest (shop slow_cache 1720000000) (summer_request []))
       = Html 200 ''<html>https://example.com/signup?coupon=SUMMER2024&country=UNKNOWN</html>''"
proof -
  let ?w = "shop slow_cache 1720000000"
  have param: "pathParameters (summer_request []) ''coupon'' = Some ''SUMMER2024''"
    by (simp add: summer_request_def)
  have nonempty: "''SUMMER2024'' \<noteq> []" by simp
  have degraded: "read_degraded (cacheClient ?w)"
    and late: "get_run (cacheClient ?w) = Responds 1500"
    and held: "live_value (cacheClient ?w) 1720000000 (cacheKey_of ''SUMMER2024'')
                 = Some (toJSON summer_link)"
    by (simp_all add: read_degraded_def shop_def slow_cache_def warm_cache_def empty_cache_def
          live_value_def)
  have found: "queryAffiliateLinkFromDatabase (database ?w) (currentDateTime ?w) ''SUMMER2024''
                 = Inr (Some summer_link)"
    by (simp add: queryAffiliateLinkFromDatabase_def query_rows_def shop_def shop_db_def
          summer_row_def summer_sale_def summer_link_def)
  have page: "templateEngine ?w ''views/coupon_redirect.ejs''
                \<lparr>td_data = summer_link, td_country = country_of (summer_request [])\<rparr>
              = Inr ''<html>https://example.com/signup?coupon=SUMMER2024&country=UNKNOWN</html>''"
    by (simp add: shop_def page_engine_def summer_link_def joined_def summer_sale_def
          summer_row_def country_of_def extractHeader_def summer_request_def)
  from degraded_cache_read_behaves_as_miss [OF param nonempty degraded]
  have "fst (cacheRetrieval (cacheClient ?w) (currentDateTime ?w) ''SUMMER2024'') = None"
    and "DbQuery ''SUMMER2024'' (currentDateTime ?w)
           \<in> set (effects (handlePromotionCouponRequest ?w (summer_request [])))"
    and "response (handlePromotionCouponRequest ?w (summer_request [])) =
             (case queryAffiliateLinkFromDatabase (database ?w) (currentDateTime ?w) ''SUMMER2024'' of
                Inl error \<Rightarrow> fst (sendJSONError error)
              | Inr None \<Rightarrow> Redirect ''/pricing''
              | Inr (Some link) \<Rightarrow>
                  (case templateEngine ?w ''views/coupon_redirect.ejs''
                          \<lparr>td_data = link, td_country = country_of (summer_request [])\<rparr> of
                     Inr html \<Rightarrow> Html 200 html
                   | Inl error \<Rightarrow> fst (sendJSONError error)))"
    by blast+
  with param degraded late held found page show ?thesis by simp
qed

subsection \<open>What the handler answers, and which calls it makes\<close>

lemma response_handle:
  "response (handlePromotionCouponRequest w req) =
     (case pathParameters req ''coupon'' of
        None \<Rightarrow> Redirect ''/pricing''
      | Some coupon \<Rightarrow>
          if coupon = [] then Redirect ''/pricing''
          else
            (case fst (resolveAffiliateLink w coupon) of
               Inl error \<Rightarrow> fst (sendJSONError error)
             | Inr None \<Rightarrow> Redirect ''/pricing''
             | Inr (Some link) \<Rightarrow>
                 if al_id link = None then Redirect ''/pricing''
                 else
                   (case templateEngine w ''views/coupon_redirect.ejs''
                           \<lparr>td_data = link, td_country = country_of req\<rparr> of
                      Inr html \<Rightarrow> Html 200 html
                    | Inl error \<Rightarrow> fst (sendJSONError error))))"
  by (auto simp add: handlePromotionCouponRequest_def response_trackAndRender
        split: option.splits prod.splits sum.splits)

lemma retrieval_effects:
  "DbInsert tbl ev \<notin> set (snd (cacheRetrieval cc t coupon))"
  "TemplateRender n d \<notin> set (snd (cacheRetrieval cc t coupon))"
  "CacheSet k v ttl \<notin> set (snd (cacheRetrieval cc t coupon))"
  by (simp_all add: cacheRetrieval_def Let_def split: sum.splits option.splits)

lemma fallback_effects:
  "DbInsert tbl ev \<notin> set (snd (snd (databaseFallback w coupon)))"
  "TemplateRender n d \<notin> set (snd (snd (databaseFallback w coupon)))"
  by (simp_all add: databaseFallback_def Let_def split: sum.splits option.splits prod.splits)

lemma resolve_effects:
  "DbInsert tbl ev \<notin> set (snd (snd (resolveAffiliateLink w coupon)))"
  "TemplateRender n d \<notin> set (snd (snd (resolveAffiliateLink w coupon)))"
proof -
  have a: "DbInsert tbl ev \<notin> set (snd (cacheRetrieval (cacheClient w) (currentDateTime w) coupon))"
    and b: "TemplateRender n d
              \<notin> set (snd (cacheRetrieval (cacheClient w) (currentDateTime w) coupon))"
    by (rule retrieval_effects)+
  have c: "DbInsert tbl ev \<notin> set (snd (snd (databaseFallback w coupon)))"
    and d: "TemplateRender n d \<notin> set (snd (snd (databaseFallback w coupon)))"
    by (rule fallback_effects)+
  from a c show "DbInsert tbl ev \<notin> set (snd (snd (resolveAffiliateLink w coupon)))"
    by (auto simp add: resolveAffiliateLink_def split: prod.splits option.splits)
  from b d show "TemplateRender n d \<notin> set (snd (snd (resolveAffiliateLink w coupon)))"
    by (auto simp add: resolveAffiliateLink_def split: prod.splits option.splits)
qed

lemma trackAndRender_inserts:
  "DbInsert tbl ev \<in> set (effects (trackAndRender w req link fx)) \<longleftrightarrow>
     DbInsert tbl ev \<in> set fx
     \<or> (tbl = ''affiliate_tracking''
        \<and> ev = new_ClickTrackingEvent (country_of req) (al_affiliate_id link)
                 (al_campaign_id link) (al_id link) CLICK)"
  by (auto simp add: trackAndRender_def renderTemplate_def trackClick_def database_insert_def
        sendJSONError_def Let_def split: prod.splits sum.splits option.splits)

lemma trackAndRender_renders:
  "TemplateRender n d \<in> set (effects (trackAndRender w req link fx)) \<longleftrightarrow>
     TemplateRender n d \<in> set fx
     \<or> (n = ''coupon_redirect'' \<and> d = \<lparr>td_data = link, td_country = country_of req\<rparr>)"
  by (auto simp add: trackAndRender_def renderTemplate_def trackClick_def database_insert_def
        sendJSONError_def Let_def split: prod.splits sum.splits option.splits)

lemma trackAndRender_failure_logged:
  assumes "insert_run (database w) = Some e"
  shows "LogError (''Click tracking failed: '' @ message_of e)
           \<in> set (effects (trackAndRender w req link fx))"
    and "affiliate_tracking (database (world_after (trackAndRender w req link fx)))
           = affiliate_tracking (database w)"
  using assms
  by (auto simp add: trackAndRender_def renderTemplate_def trackClick_def database_insert_def
        sendJSONError_def Let_def split: prod.splits sum.splits)

lemma handle_inserts:
  assumes "DbInsert tbl ev \<in> set (effects (handlePromotionCouponRequest w req))"
  shows "\<exists>coupon link stored fx.
           pathParameters req ''coupon'' = Some coupon \<and> coupon \<noteq> []
           \<and> resolveAffiliateLink w coupon = (Inr (Some link), stored, fx)
           \<and> al_id link \<noteq> None
           \<and> handlePromotionCouponRequest w req
               = trackAndRender (with_entries w stored) req link fx"
proof (cases "pathParameters req ''coupon''")
  case None
  with assms show ?thesis by (simp add: handlePromotionCouponRequest_def)
next
  case (Some coupon)
  show ?thesis
  proof (cases "coupon = []")
    case True
    with Some assms show ?thesis by (simp add: handlePromotionCouponRequest_def)
  next
    case False
    obtain found stored fx where r: "resolveAffiliateLink w coupon = (found, stored, fx)"
      by (cases "resolveAffiliateLink w coupon") auto
    have clean: "DbInsert tbl ev \<notin> set fx"
      using resolve_effects(1) [of tbl ev w coupon] r by simp
    show ?thesis
    proof (cases found)
      case (Inl e)
      with handle_thrown [OF Some False] r assms clean show ?thesis
        by (simp add: sendJSONError_def Let_def)
    next
      case (Inr found_link)
      show ?thesis
      proof (cases found_link)
        case None
        with Inr handle_not_found [OF Some False] r assms clean show ?thesis by simp
      next
        case (Some link)
        show ?thesis
        proof (cases "al_id link")
          case None
          with Some Inr r \<open>pathParameters req ''coupon'' = Some coupon\<close> False assms clean
          show ?thesis by (simp add: handlePromotionCouponRequest_def)
        next
          case (Some i)
          then have "al_id link \<noteq> None" by simp
          with \<open>found_link = Some link\<close> Inr r
            \<open>pathParameters req ''coupon'' = Some coupon\<close> False
            handle_found [of req coupon w link stored fx]
          show ?thesis by auto
        qed
      qed
    qed
  qed
qed

subsection \<open>Failure of the tracking insert\<close>

lemma with_insert_run_simps [simp]:
  "cacheClient (with_insert_run w r) = cacheClient w"
  "currentDateTime (with_insert_run w r) = currentDateTime w"
  "templateEngine (with_insert_run w r) = templateEngine w"
  "insert_run (database (with_insert_run w r)) = r"
  "affiliate_tracking (database (with_insert_run w r)) = affiliate_tracking (database w)"
  by (simp_all add: with_insert_run_def)

lemma query_rows_ignores_insert_run:
  "query_rows (db\<lparr>insert_run := r\<rparr>) coupon t = query_rows db coupon t"
  by (simp add: query_rows_def cong: if_cong)

lemma query_ignores_insert_run:
  "queryAffiliateLinkFromDatabase (db\<lparr>insert_run := r\<rparr>) t coupon
     = queryAffiliateLinkFromDatabase db t coupon"
  by (simp add: queryAffiliateLinkFromDatabase_def query_rows_ignores_insert_run
        split: option.splits)

lemma fallback_ignores_insert_run:
  "databaseFallback (with_insert_run w r) coupon = databaseFallback w coupon"
proof -
  have "queryAffiliateLinkFromDatabase (database (with_insert_run w r)) (currentDateTime w) coupon
          = queryAffiliateLinkFromDatabase (database w) (currentDateTime w) coupon"
    by (simp add: with_insert_run_def query_ignores_insert_run)
  then show ?thesis
    by (simp add: databaseFallback_def Let_def)
qed

lemma resolve_ignores_insert_run:
  "resolveAffiliateLink (with_insert_run w r) coupon = resolveAffiliateLink w coupon"
  by (simp add: resolveAffiliateLink_def fallback_ignores_insert_run
        cong: prod.case_cong option.case_cong)

text \<open>
  Claim C5. The response of the handler is the same whether the tracking insert
  throws or succeeds: same status code, same body. When the insert throws, every
  request that issued it has the line \<^verbatim>\<open>Click tracking failed: ...\<close> in the error
  log, every resolved request issues it, and the tracking table is left as it was.
  The helper \<^verbatim>\<open>trackClickAsync\<close> catches and logs the failure in the same way.
\<close>

theorem tracking_failure_leaves_response_unchanged:
  "response (handlePromotionCouponRequest (with_insert_run w (Some e)) req)
     = response (handlePromotionCouponRequest (with_insert_run w None) req)
   \<and> (\<forall>tbl ev.
         DbInsert tbl ev
           \<in> set (effects (handlePromotionCouponRequest (with_insert_run w (Some e)) req))
         \<longrightarrow> LogError (''Click tracking failed: '' @ message_of e)
               \<in> set (effects (handlePromotionCouponRequest (with_insert_run w (Some e)) req))
             \<and> affiliate_tracking (database (world_after
                  (handlePromotionCouponRequest (with_insert_run w (Some e)) req)))
                 = affiliate_tracking (database w))
   \<and> (\<forall>coupon link.
         pathParameters req ''coupon'' = Some coupon \<and> coupon \<noteq> []
         \<and> fst (resolveAffiliateLink w coupon) = Inr (Some link) \<and> al_id link \<noteq> None
         \<longrightarrow> (\<exists>ev. DbInsert ''affiliate_tracking'' ev
                      \<in> set (effects (handlePromotionCouponRequest
                                        (with_insert_run w (Some e)) req))))
   \<and> (\<forall>db t ev. insert_run db = Some e
         \<longrightarrow> trackClickAsync db t ev
              = (db, [DbInsert ''affiliate_tracking'' ev,
                      LogError (''Click tracking failed: '' @ message_of e)]))"
proof -
  have same: "response (handlePromotionCouponRequest (with_insert_run w (Some e)) req)
          = response (handlePromotionCouponRequest (with_insert_run w None) req)"
    by (simp add: response_handle resolve_ignores_insert_run
          cong: option.case_cong sum.case_cong if_cong)
  have logged: "LogError (''Click tracking failed: '' @ message_of e)
               \<in> set (effects (handlePromotionCouponRequest (with_insert_run w (Some e)) req))
             \<and> affiliate_tracking (database (world_after
                  (handlePromotionCouponRequest (with_insert_run w (Some e)) req)))
                 = affiliate_tracking (database w)"
    if "DbInsert tbl ev
            \<in> set (effects (handlePromotionCouponRequest (with_insert_run w (Some e)) req))"
    for tbl ev
  proof -
    from handle_inserts [OF that] obtain coupon link stored fx
      where h: "handlePromotionCouponRequest (with_insert_run w (Some e)) req
                  = trackAndRender (with_entries (with_insert_run w (Some e)) stored) req link fx"
      by blast
    have fails: "insert_run (database (with_entries (with_insert_run w (Some e)) stored)) = Some e"
      by simp
    from trackAndRender_failure_logged [OF fails, of req link fx]
    show ?thesis by (simp add: h)
  qed
  have issued: "\<exists>ev. DbInsert ''affiliate_tracking'' ev
               \<in> set (effects (handlePromotionCouponRequest (with_insert_run w (Some e)) req))"
    if a: "pathParameters req ''coupon'' = Some coupon \<and> coupon \<noteq> []
         \<and> fst (resolveAffiliateLink w coupon) = Inr (Some link) \<and> al_id link \<noteq> None"
    for coupon link
  proof -
    obtain stored fx where
      r: "resolveAffiliateLink (with_insert_run w (Some e)) coupon = (Inr (Some link), stored, fx)"
      using a by (cases "resolveAffiliateLink w coupon") (auto simp add: resolve_ignores_insert_run)
    from a have "handlePromotionCouponRequest (with_insert_run w (Some e)) req
        = trackAndRender (with_entries (with_insert_run w (Some e)) stored) req link fx"
      by (intro handle_found [OF _ _ r]) simp_all
    then show ?thesis
      by (auto simp add: trackAndRender_inserts)
  qed
  have helper: "trackClickAsync db t ev
              = (db, [DbInsert ''affiliate_tracking'' ev,
                      LogError (''Click tracking failed: '' @ message_of e)])"
    if "insert_run db = Some e" for db t ev
    using that by (simp add: trackClickAsync_def insertClickTracking_def database_insert_def)
  from same logged issued helper show ?thesis by blast
qed

theorem tracking_failure_witness:
  "pathParameters (summer_request []) ''coupon'' = Some ''SUMMER2024''
   \<and> fst (resolveAffiliateLink (shop empty_cache 1720000000) ''SUMMER2024'')
       = Inr (Some summer_link)
   \<and> al_id summer_link \<noteq> None
   \<and> response (handlePromotionCouponRequest
        (with_insert_run (shop empty_cache 1720000000) (Some (plain_error ''deadlock'')))
        (summer_request []))
      = Html 200 ''<html>https://example.com/signup?coupon=SUMMER2024&country=UNKNOWN</html>''
   \<and> response (handlePromotionCouponRequest
        (with_insert_run (shop empty_cache 1720000000) None) (summer_request []))
      = Html 200 ''<html>https://example.com/signup?coupon=SUMMER2024&country=UNKNOWN</html>''
   \<and> LogError ''Click tracking failed: deadlock''
       \<in> set (effects (handlePromotionCouponRequest
            (with_insert_run (shop empty_cache 1720000000) (Some (plain_error ''deadlock'')))
            (summer_request [])))"
proof -
  let ?w = "shop empty_cache 1720000000"
  let ?e = "plain_error ''deadlock''"
  have param: "pathParameters (summer_request []) ''coupon'' = Some ''SUMMER2024''"
    by (simp add: summer_request_def)
  have resolved: "fst (resolveAffiliateLink ?w ''SUMMER2024'') = Inr (Some summer_link)"
    by (simp add: resolveAffiliateLink_def cacheRetrieval_def databaseFallback_def shop_def
          empty_cache_def getWithTimeout_def setWithTimeout_def awaitFirstResolved_def
          live_value_def queryAffiliateLinkFromDatabase_def query_rows_def shop_db_def
          summer_row_def summer_sale_def summer_link_def Let_def)
  have ident: "al_id summer_link \<noteq> None"
    by (simp add: summer_link_def joined_def)
  have ok: "response (handlePromotionCouponRequest (with_insert_run ?w None) (summer_request []))
      = Html 200 ''<html>https://example.com/signup?coupon=SUMMER2024&country=UNKNOWN</html>''"
    using resolved ident
    by (simp add: response_handle resolve_ignores_insert_run param)
       (simp add: with_insert_run_def shop_def page_engine_def summer_link_def joined_def
          summer_sale_def summer_row_def country_of_def extractHeader_def summer_request_def)
  note t = tracking_failure_leaves_response_unchanged [of ?w ?e "summer_request []"]
  from t have same: "response (handlePromotionCouponRequest (with_insert_run ?w (Some ?e))
                                (summer_request []))
      = response (handlePromotionCouponRequest (with_insert_run ?w None) (summer_request []))"
    by (rule conjunct1)
  from t param resolved ident
  have "LogError (''Click tracking failed: '' @ message_of ?e)
          \<in> set (effects (handlePromotionCouponRequest (with_insert_run ?w (Some ?e))
                            (summer_request [])))"
    by blast
  then have logged: "LogError ''Click tracking failed: deadlock''
          \<in> set (effects (handlePromotionCouponRequest (with_insert_run ?w (Some ?e))
                            (summer_request [])))"
    by (simp add: message_of_def plain_error_def)
  from param resolved ident same ok logged show ?thesis by simp
qed

subsection \<open>The five ways through the handler\<close>

lemma handle_cases [case_names skipped thrown not_found no_id found]:
  obtains
    (skipped) "pathParameters req ''coupon'' = None \<or> pathParameters req ''coupon'' = Some []"
      "handlePromotionCouponRequest w req =
         \<lparr>response = Redirect ''/pricing'', world_after = w, effects = []\<rparr>"
  | (thrown) coupon error stored fx where
      "pathParameters req ''coupon'' = Some coupon" "coupon \<noteq> []"
      "resolveAffiliateLink w coupon = (Inl error, stored, fx)"
      "handlePromotionCouponRequest w req =
         \<lparr>response = fst (sendJSONError error), world_after = with_entries w stored,
          effects = fx @ snd (sendJSONError error)\<rparr>"
  | (not_found) coupon stored fx where
      "pathParameters req ''coupon'' = Some coupon" "coupon \<noteq> []"
      "resolveAffiliateLink w coupon = (Inr None, stored, fx)"
      "handlePromotionCouponRequest w req =
         \<lparr>response = Redirect ''/pricing'', world_after = with_entries w stored,
          effects = fx @ [LogInfo (''Invalid coupon: '' @ coupon)]\<rparr>"
  | (no_id) coupon link stored fx where
      "pathParameters req ''coupon'' = Some coupon" "coupon \<noteq> []"
      "resolveAffiliateLink w coupon = (Inr (Some link), stored, fx)" "al_id link = None"
      "handlePromotionCouponRequest w req =
         \<lparr>response = Redirect ''/pricing'', world_after = with_entries w stored,
          effects = fx @ [LogInfo (''Invalid coupon: '' @ coupon)]\<rparr>"
  | (found) coupon link stored fx where
      "pathParameters req ''coupon'' = Some coupon" "coupon \<noteq> []"
      "resolveAffiliateLink w coupon = (Inr (Some link), stored, fx)" "al_id link \<noteq> None"
      "handlePromotionCouponRequest w req
         = trackAndRender (with_entries w stored) req link fx"
proof (cases "pathParameters req ''coupon''")
  case None
  then show ?thesis by (intro skipped) (simp_all add: handlePromotionCouponRequest_def)
next
  case (Some coupon)
  note param = this
  show ?thesis
  proof (cases "coupon = []")
    case True
    with param show ?thesis by (intro skipped) (simp_all add: handlePromotionCouponRequest_def)
  next
    case False
    obtain result stored fx where r: "resolveAffiliateLink w coupon = (result, stored, fx)"
      by (cases "resolveAffiliateLink w coupon") auto
    show ?thesis
    proof (cases result)
      case (Inl e)
      with r have r': "resolveAffiliateLink w coupon = (Inl e, stored, fx)" by simp
      show ?thesis by (rule thrown [OF param False r' handle_thrown [OF param False r']])
    next
      case (Inr found_link)
      show ?thesis
      proof (cases found_link)
        case None
        with Inr r have r': "resolveAffiliateLink w coupon = (Inr None, stored, fx)" by simp
        show ?thesis by (rule not_found [OF param False r' handle_not_found [OF param False r']])
      next
        case (Some link)
        with Inr r have r': "resolveAffiliateLink w coupon = (Inr (Some link), stored, fx)"
          by simp
        show ?thesis
        proof (cases "al_id link = None")
          case True
          with param False r' have "handlePromotionCouponRequest w req =
             \<lparr>response = Redirect ''/pricing'', world_after = with_entries w stored,
              effects = fx @ [LogInfo (''Invalid coupon: '' @ coupon)]\<rparr>"
            by (simp add: handlePromotionCouponRequest_def)
          then show ?thesis by (rule no_id [OF param False r' True])
        next
          case nonnull: False
          show ?thesis
            by (rule found [OF param False r' nonnull handle_found [OF param False r' nonnull]])
        qed
      qed
    qed
  qed
qed

subsection \<open>Tracking rows\<close>

lemma trackAndRender_tracking:
  "affiliate_tracking (database (world_after (trackAndRender w req link fx)))
     = affiliate_tracking (database w)
       @ (case insert_run (database w) of Some e \<Rightarrow> [] | None \<Rightarrow> [click_row w req link])"
  by (auto simp add: trackAndRender_def renderTemplate_def trackClick_def database_insert_def
        sendJSONError_def row_of_event_def new_ClickTrackingEvent_def click_row_def Let_def
        split: prod.splits sum.splits option.splits)

lemma click_row_with_entries [simp]:
  "click_row (with_entries w stored) req link = click_row w req link"
  by (simp add: click_row_def)

lemma persisted_rows_handle:
  "persisted_rows w req =
     (case pathParameters req ''coupon'' of
        None \<Rightarrow> []
      | Some coupon \<Rightarrow>
          if coupon = [] then []
          else
            (case fst (resolveAffiliateLink w coupon) of
               Inl error \<Rightarrow> []
             | Inr None \<Rightarrow> []
             | Inr (Some link) \<Rightarrow>
                 if al_id link = None then []
                 else (case insert_run (database w) of
                         Some e \<Rightarrow> []
                       | None \<Rightarrow> [click_row w req link])))"
  by (cases rule: handle_cases [of req w])
     (auto simp add: persisted_rows_def trackAndRender_tracking split: option.splits)

lemma tracking_after_handle:
  "affiliate_tracking (database (world_after (handlePromotionCouponRequest w req)))
     = affiliate_tracking (database w) @ persisted_rows w req"
  by (cases rule: handle_cases [of req w])
     (auto simp add: persisted_rows_def trackAndRender_tracking split: option.splits)

text \<open>
  Claim C8. The handler only adds rows at the end of the tracking table, at most one
  per request and exactly one for a resolved redirect whose insert succeeds. Every row
  it adds has the affiliate id, the campaign id and the id of the resolved link, the
  country detected for the request, and status CLICK, payment HOLD, amount 0. The
  helper \<^verbatim>\<open>insertClickTracking\<close> stores the members of its event with payment
  HOLD and amount 0.
\<close>

theorem persisted_tracking_row_fields:
  "affiliate_tracking (database (world_after (handlePromotionCouponRequest w req)))
     = affiliate_tracking (database w) @ persisted_rows w req
   \<and> length (persisted_rows w req) \<le> 1
   \<and> (\<forall>row \<in> set (persisted_rows w req).
         tr_status row = CLICK \<and> tr_payment row = HOLD \<and> tr_amount row = 0
         \<and> tr_country row = country_of req
         \<and> (\<exists>coupon link.
               pathParameters req ''coupon'' = Some coupon
               \<and> fst (resolveAffiliateLink w coupon) = Inr (Some link)
               \<and> al_id link \<noteq> None
               \<and> tr_affiliate_id row = al_affiliate_id link
               \<and> tr_campaign_id row = al_campaign_id link
               \<and> tr_link_id row = al_id link))
   \<and> (\<forall>coupon link.
         pathParameters req ''coupon'' = Some coupon \<and> coupon \<noteq> []
         \<and> fst (resolveAffiliateLink w coupon) = Inr (Some link) \<and> al_id link \<noteq> None
         \<and> insert_run (database w) = None
         \<longrightarrow> persisted_rows w req = [click_row w req link])
   \<and> (\<forall>db t event insertedId db'.
         insertClickTracking db t event = Inr (insertedId, db')
         \<longrightarrow> (\<exists>row. affiliate_tracking db' = affiliate_tracking db @ [row]
                   \<and> tr_country row = ev_country event
                   \<and> tr_affiliate_id row = ev_affiliate_id event
                   \<and> tr_campaign_id row = ev_campaign_id event
                   \<and> tr_link_id row = ev_link_id event
                   \<and> tr_status row = ev_status event
                   \<and> tr_payment row = HOLD \<and> tr_amount row = 0))"
proof -
  have fields: "tr_status row = CLICK \<and> tr_payment row = HOLD \<and> tr_amount row = 0
         \<and> tr_country row = country_of req
         \<and> (\<exists>coupon link.
               pathParameters req ''coupon'' = Some coupon
               \<and> fst (resolveAffiliateLink w coupon) = Inr (Some link)
               \<and> al_id link \<noteq> None
               \<and> tr_affiliate_id row = al_affiliate_id link
               \<and> tr_campaign_id row = al_campaign_id link
               \<and> tr_link_id row = al_id link)"
    if "row \<in> set (persisted_rows w req)" for row
    using that
    apply (auto simp add: persisted_rows_handle click_row_def
          split: option.splits if_splits sum.splits)
    apply (metis option.distinct(1))
    done
  have one: "length (persisted_rows w req) \<le> 1"
    by (simp add: persisted_rows_handle split: option.splits sum.splits)
  have resolved: "persisted_rows w req = [click_row w req link]"
    if "pathParameters req ''coupon'' = Some coupon \<and> coupon \<noteq> []
         \<and> fst (resolveAffiliateLink w coupon) = Inr (Some link) \<and> al_id link \<noteq> None
         \<and> insert_run (database w) = None" for coupon link
    using that by (auto simp add: persisted_rows_handle)
  have helper: "\<exists>row. affiliate_tracking db' = affiliate_tracking db @ [row]
                   \<and> tr_country row = ev_country event
                   \<and> tr_affiliate_id row = ev_affiliate_id event
                   \<and> tr_campaign_id row = ev_campaign_id event
                   \<and> tr_link_id row = ev_link_id event
                   \<and> tr_status row = ev_status event
                   \<and> tr_payment row = HOLD \<and> tr_amount row = 0"
    if "insertClickTracking db t event = Inr (insertedId, db')"
    for db t event insertedId db'
    using that
    by (auto simp add: insertClickTracking_def database_insert_def Let_def split: option.splits)
  from tracking_after_handle one fields resolved helper show ?thesis by blast
qed

theorem persisted_tracking_row_witness:
  "pathParameters (summer_request [(''CF-IPCountry'', ''US'')]) ''coupon'' = Some ''SUMMER2024''
   \<and> fst (resolveAffiliateLink (shop empty_cache 1720000000) ''SUMMER2024'')
       = Inr (Some summer_link)
   \<and> al_id summer_link \<noteq> None
   \<and> insert_run (database (shop empty_cache 1720000000)) = None
   \<and> affiliate_tracking (database (world_after (handlePromotionCouponRequest
        (shop empty_cache 1720000000) (summer_request [(''CF-IPCountry'', ''US'')]))))
      = [\<lparr>tr_id = 1, tr_country = ''US'', tr_affiliate_id = 123, tr_campaign_id = 456,
          tr_link_id = Some 789, tr_status = CLICK, tr_payment = HOLD, tr_amount = 0,
          tr_created_at = 1720000000, tr_updated_at = 1720000000\<rparr>]"
proof -
  let ?w = "shop empty_cache 1720000000"
  let ?req = "summer_request [(''CF-IPCountry'', ''US'')]"
  have param: "pathParameters ?req ''coupon'' = Some ''SUMMER2024''"
    by (simp add: summer_request_def)
  have resolved: "fst (resolveAffiliateLink ?w ''SUMMER2024'') = Inr (Some summer_link)"
    by (simp add: resolveAffiliateLink_def cacheRetrieval_def databaseFallback_def shop_def
          empty_cache_def getWithTimeout_def setWithTimeout_def awaitFirstResolved_def
          live_value_def queryAffiliateLinkFromDatabase_def query_rows_def shop_db_def
          summer_row_def summer_sale_def summer_link_def Let_def)
  have ident: "al_id summer_link \<noteq> None"
    by (simp add: summer_link_def joined_def)
  have inserts: "insert_run (database ?w) = None"
    by (simp add: shop_def shop_db_def)
  have lower: "toLowerCase ''CF-IPCountry'' = ''cf-ipcountry''"
    by code_simp
  note t = persisted_tracking_row_fields [of ?w ?req]
  from t param resolved ident inserts
  have rows: "persisted_rows ?w ?req = [click_row ?w ?req summer_link]"
    by blast
  from t have "affiliate_tracking (database (world_after (handlePromotionCouponRequest ?w ?req)))
     = affiliate_tracking (database ?w) @ persisted_rows ?w ?req"
    by (rule conjunct1)
  also have "\<dots> = affiliate_tracking (database ?w) @ [click_row ?w ?req summer_link]"
    by (simp only: rows)
  also have "\<dots> = [\<lparr>tr_id = 1, tr_country = ''US'', tr_affiliate_id = 123, tr_campaign_id = 456,
          tr_link_id = Some 789, tr_status = CLICK, tr_payment = HOLD, tr_amount = 0,
          tr_created_at = 1720000000, tr_updated_at = 1720000000\<rparr>]"
    by (simp add: click_row_def shop_def shop_db_def summer_link_def joined_def
          summer_row_def country_of_def extractHeader_def summer_request_def lower
          lower_header_name)
  finally have "affiliate_tracking (database (world_after (handlePromotionCouponRequest ?w ?req)))
      = [\<lparr>tr_id = 1, tr_country = ''US'', tr_affiliate_id = 123, tr_campaign_id = 456,
          tr_link_id = Some 789, tr_status = CLICK, tr_payment = HOLD, tr_amount = 0,
          tr_created_at = 1720000000, tr_updated_at = 1720000000\<rparr>]" .
  with param resolved ident inserts show ?thesis by simp
qed

subsection \<open>The country of the request\<close>

lemma first_header_case_insensitive:
  "toLowerCase name = toLowerCase headerName
     \<Longrightarrow> extractHeader \<lparr>pathParameters = ps, headers = (name, v) # hs\<rparr> headerName = Some v"
  by (simp add: extractHeader_def)

text \<open>
  Claim C7. For every successfully resolved request whose \<^verbatim>\<open>cf-ipcountry\<close> header,
  looked up without regard to case, is absent or empty, the country is
  \<^verbatim>\<open>UNKNOWN\<close>: the handler creates the tracking event with it and passes it to the
  template, no tracking event and no template data of the request carry another
  country, and the tracking row that is stored has it too.
\<close>

theorem missing_country_defaults_to_unknown:
  assumes param: "pathParameters req ''coupon'' = Some coupon" and nonempty: "coupon \<noteq> []"
    and resolved: "fst (resolveAffiliateLink w coupon) = Inr (Some link)"
    and ident: "al_id link \<noteq> None"
    and absent: "extractHeader req ''cf-ipcountry'' = None
                 \<or> extractHeader req ''cf-ipcountry'' = Some []"
  shows "country_of req = ''UNKNOWN''
         \<and> DbInsert ''affiliate_tracking''
              (new_ClickTrackingEvent ''UNKNOWN'' (al_affiliate_id link) (al_campaign_id link)
                 (al_id link) CLICK)
             \<in> set (effects (handlePromotionCouponRequest w req))
         \<and> TemplateRender ''coupon_redirect'' \<lparr>td_data = link, td_country = ''UNKNOWN''\<rparr>
             \<in> set (effects (handlePromotionCouponRequest w req))
         \<and> (\<forall>tbl ev. DbInsert tbl ev \<in> set (effects (handlePromotionCouponRequest w req))
               \<longrightarrow> ev_country ev = ''UNKNOWN'')
         \<and> (\<forall>n d. TemplateRender n d \<in> set (effects (handlePromotionCouponRequest w req))
               \<longrightarrow> td_country d = ''UNKNOWN'')
         \<and> (\<forall>row \<in> set (persisted_rows w req). tr_country row = ''UNKNOWN'')"
proof -
  from absent have country: "country_of req = ''UNKNOWN''"
    by (auto simp add: country_of_def)
  obtain stored fx where r: "resolveAffiliateLink w coupon = (Inr (Some link), stored, fx)"
    using resolved by (cases "resolveAffiliateLink w coupon") auto
  note h = handle_found [OF param nonempty r ident]
  have clean: "DbInsert tbl ev \<notin> set fx" "TemplateRender n d \<notin> set fx" for tbl ev n d
    using resolve_effects [of _ _ w coupon] r by simp_all
  have event: "DbInsert ''affiliate_tracking''
              (new_ClickTrackingEvent ''UNKNOWN'' (al_affiliate_id link) (al_campaign_id link)
                 (al_id link) CLICK)
             \<in> set (effects (handlePromotionCouponRequest w req))"
    by (simp add: h trackAndRender_inserts country)
  have data: "TemplateRender ''coupon_redirect'' \<lparr>td_data = link, td_country = ''UNKNOWN''\<rparr>
             \<in> set (effects (handlePromotionCouponRequest w req))"
    by (simp add: h trackAndRender_renders country)
  have events: "\<forall>tbl ev. DbInsert tbl ev \<in> set (effects (handlePromotionCouponRequest w req))
               \<longrightarrow> ev_country ev = ''UNKNOWN''"
    by (auto simp add: h trackAndRender_inserts clean country new_ClickTrackingEvent_def)
  have datas: "\<forall>n d. TemplateRender n d \<in> set (effects (handlePromotionCouponRequest w req))
               \<longrightarrow> td_country d = ''UNKNOWN''"
    by (auto simp add: h trackAndRender_renders clean country)
  have rows: "\<forall>row \<in> set (persisted_rows w req). tr_country row = ''UNKNOWN''"
    using param nonempty resolved ident
    by (auto simp add: persisted_rows_handle click_row_def country split: option.splits)
  from country event data events datas rows show ?thesis by blast
qed

theorem missing_country_witness:
  "pathParameters (summer_request [(''Accept'', ''text/html''), (''CF-IPCountry'', [])]) ''coupon''
     = Some ''SUMMER2024''
   \<and> fst (resolveAffiliateLink (shop empty_cache 1720000000) ''SUMMER2024'')
       = Inr (Some summer_link)
   \<and> al_id summer_link \<noteq> None
   \<and> extractHeader (summer_request [(''Accept'', ''text/html''), (''CF-IPCountry'', [])])
        ''cf-ipcountry'' = Some []
   \<and> extractHeader (summer_request [(''Accept'', ''text/html'')]) ''cf-ipcountry'' = None
   \<and> DbInsert ''affiliate_tracking''
        \<lparr>ev_country = ''UNKNOWN'', ev_affiliate_id = 123, ev_campaign_id = 456,
         ev_link_id = Some 789, ev_status = CLICK, ev_payment = HOLD, ev_amount = 0\<rparr>
       \<in> set (effects (handlePromotionCouponRequest (shop empty_cache 1720000000)
            (summer_request [(''Accept'', ''text/html''), (''CF-IPCountry'', [])])))
   \<and> TemplateRender ''coupon_redirect'' \<lparr>td_data = summer_link, td_country = ''UNKNOWN''\<rparr>
       \<in> set (effects (handlePromotionCouponRequest (shop empty_cache 1720000000)
            (summer_request [(''Accept'', ''text/html'')])))"
proof -
  let ?w = "shop empty_cache 1720000000"
  let ?empty = "summer_request [(''Accept'', ''text/html''), (''CF-IPCountry'', [])]"
  let ?none = "summer_request [(''Accept'', ''text/html'')]"
  have param: "pathParameters ?empty ''coupon'' = Some ''SUMMER2024''"
    "pathParameters ?none ''coupon'' = Some ''SUMMER2024''"
    by (simp_all add: summer_request_def)
  have nonempty: "''SUMMER2024'' \<noteq> []" by simp
  have resolved: "fst (resolveAffiliateLink ?w ''SUMMER2024'') = Inr (Some summer_link)"
    by (simp add: resolveAffiliateLink_def cacheRetrieval_def databaseFallback_def shop_def
          empty_cache_def getWithTimeout_def setWithTimeout_def awaitFirstResolved_def
          live_value_def queryAffiliateLinkFromDatabase_def query_rows_def shop_db_def
          summer_row_def summer_sale_def summer_link_def Let_def)
  have ident: "al_id summer_link \<noteq> None"
    by (simp add: summer_link_def joined_def)
  have lower: "toLowerCase ''CF-IPCountry'' = ''cf-ipcountry''"
    "toLowerCase ''Accept'' = ''accept''"
    by code_simp+
  have empty: "extractHeader ?empty ''cf-ipcountry'' = Some []"
    and none: "extractHeader ?none ''cf-ipcountry'' = None"
    by (simp_all add: extractHeader_def summer_request_def lower lower_header_name)
  from missing_country_defaults_to_unknown [OF param(1) nonempty resolved ident] empty
  have "DbInsert ''affiliate_tracking''
          (new_ClickTrackingEvent ''UNKNOWN'' (al_affiliate_id summer_link)
             (al_campaign_id summer_link) (al_id summer_link) CLICK)
         \<in> set (effects (handlePromotionCouponRequest ?w ?empty))"
    by blast
  then have event: "DbInsert ''affiliate_tracking''
        \<lparr>ev_country = ''UNKNOWN'', ev_affiliate_id = 123, ev_campaign_id = 456,
         ev_link_id = Some 789, ev_status = CLICK, ev_payment = HOLD, ev_amount = 0\<rparr>
       \<in> set (effects (handlePromotionCouponRequest ?w ?empty))"
    by (simp add: new_ClickTrackingEvent_def summer_link_def joined_def summer_row_def)
  from missing_country_defaults_to_unknown [OF param(2) nonempty resolved ident] none
  have data: "TemplateRender ''coupon_redirect'' \<lparr>td_data = summer_link, td_country = ''UNKNOWN''\<rparr>
         \<in> set (effects (handlePromotionCouponRequest ?w ?none))"
    by blast
  from param resolved ident empty none event data show ?thesis by simp
qed

subsection \<open>No negative caching\<close>

lemma with_entries_same [simp]: "with_entries w (entries (cacheClient w)) = w"
  by (simp add: with_entries_def)









end
